theory Spec2Isabelle
  imports Complex_Main
begin

section \<open>Python strings\<close>

text \<open>
  A Python \<open>str\<close> is modelled as a \<open>string\<close> (a list of 8-bit characters). The functions
  below are the string operations the services use, on ASCII text: \<open>lower\<close>, \<open>strip\<close>,
  the substring test \<open>k in text\<close>, \<open>find\<close>, \<open>rfind\<close> and slicing.
\<close>

definition lower_char :: "char \<Rightarrow> char" where
  "lower_char c =
     (case map_of (zip ''ABCDEFGHIJKLMNOPQRSTUVWXYZ'' ''abcdefghijklmnopqrstuvwxyz'') c of
        Some d \<Rightarrow> d
      | None \<Rightarrow> c)"

definition lower :: "string \<Rightarrow> string" where
  "lower s = map lower_char s"

fun startswith :: "string \<Rightarrow> string \<Rightarrow> bool" where
  "startswith [] text = True"
| "startswith (k # ks) [] = False"
| "startswith (k # ks) (c # cs) = (k = c \<and> startswith ks cs)"

text \<open>\<open>str_in k text\<close> is Python's \<open>k in text\<close> on two strings.\<close>

fun str_in :: "string \<Rightarrow> string \<Rightarrow> bool" where
  "str_in k [] = (k = [])"
| "str_in k (c # cs) = (startswith k (c # cs) \<or> str_in k cs)"

definition any_in :: "string list \<Rightarrow> string \<Rightarrow> bool" where
  "any_in kws text = list_ex (\<lambda>k. str_in k text) kws"

definition is_word_char :: "char \<Rightarrow> bool" where
  "is_word_char c =
     (c \<in> set ''abcdefghijklmnopqrstuvwxyzABCDEFGHIJKLMNOPQRSTUVWXYZ0123456789_'')"

text \<open>
  \<open>re.findall(r'\b\w+\b', text)\<close>: the maximal runs of word characters, left to right.
  The first argument is the run being read.
\<close>

fun findall_words :: "string \<Rightarrow> string \<Rightarrow> string list" where
  "findall_words cur [] = (if cur = [] then [] else [cur])"
| "findall_words cur (c # cs) =
     (if is_word_char c then findall_words (cur @ [c]) cs
      else if cur = [] then findall_words [] cs
      else cur # findall_words [] cs)"

section \<open>The keyword-rule classifier (ai\_email\_processor.py)\<close>

record EmailAnalysis =
  category :: string
  priority :: string
  sentiment :: string
  intent :: string
  confidence :: rat
  keywords_f :: "string list"
  requires_human :: bool
  suggested_response :: "string option"
  ticket_needed :: bool

text \<open>
  The three keyword tables of \<open>AIEmailProcessor.__init__\<close>. A Python dict iterates in
  insertion order, so each table is an association list in declaration order.
\<close>

definition categories :: "(string \<times> string list) list" where
  "categories =
     [(''technical'', [''error'', ''bug'', ''crash'', ''not working'', ''broken'', ''issue'', ''problem'']),
      (''billing'', [''payment'', ''invoice'', ''charge'', ''refund'', ''subscription'', ''billing'']),
      (''account'', [''login'', ''password'', ''access'', ''account'', ''profile'', ''settings'']),
      (''general'', [''question'', ''help'', ''how to'', ''information'', ''support'']),
      (''complaint'', [''angry'', ''frustrated'', ''terrible'', ''awful'', ''disappointed'']),
      (''feature_request'', [''feature'', ''enhancement'', ''suggestion'', ''improve'', ''add''])]"

definition priority_keywords :: "(string \<times> string list) list" where
  "priority_keywords =
     [(''high'', [''urgent'', ''critical'', ''emergency'', ''asap'', ''immediately'', ''down'', ''outage'']),
      (''medium'', [''important'', ''soon'', ''needed'', ''issue'', ''problem'']),
      (''low'', [''question'', ''when possible'', ''eventually'', ''minor''])]"

definition sentiment_keywords :: "(string \<times> string list) list" where
  "sentiment_keywords =
     [(''positive'', [''thank'', ''great'', ''excellent'', ''love'', ''amazing'', ''perfect'']),
      (''negative'', [''angry'', ''frustrated'', ''terrible'', ''awful'', ''hate'', ''worst'']),
      (''neutral'', [''question'', ''help'', ''information'', ''please'', ''need''])]"

text \<open>\<open>sum(1 for keyword in keywords if keyword in text)\<close>\<close>

definition keyword_score :: "string list \<Rightarrow> string \<Rightarrow> nat" where
  "keyword_score kws text = length (filter (\<lambda>k. str_in k text) kws)"

text \<open>The dict of positive scores built by the loop, in table order.\<close>

definition positive_scores :: "(string \<times> string list) list \<Rightarrow> string \<Rightarrow> (string \<times> nat) list" where
  "positive_scores tbl text =
     filter (\<lambda>entry. 0 < snd entry) (map (\<lambda>entry. (fst entry, keyword_score (snd entry) text)) tbl)"

text \<open>
  \<open>max(scores, key=scores.get)\<close> on a non-empty dict: the first key, in iteration order,
  whose score is maximal. The first argument is the best entry so far.
\<close>

fun max_key :: "string \<times> nat \<Rightarrow> (string \<times> nat) list \<Rightarrow> string \<times> nat" where
  "max_key best [] = best"
| "max_key best (x # xs) = (if snd best < snd x then max_key x xs else max_key best xs)"

definition categorize_email :: "string \<Rightarrow> string" where
  "categorize_email text =
     (case positive_scores categories text of
        [] \<Rightarrow> ''general''
      | x # xs \<Rightarrow> fst (max_key x xs))"

fun first_matching :: "(string \<times> string list) list \<Rightarrow> string \<Rightarrow> string option" where
  "first_matching [] text = None"
| "first_matching (entry # rest) text =
     (if any_in (snd entry) text then Some (fst entry) else first_matching rest text)"

definition determine_priority :: "string \<Rightarrow> string" where
  "determine_priority text =
     (case first_matching priority_keywords text of
        Some p \<Rightarrow> p
      | None \<Rightarrow> ''medium'')"

definition analyze_sentiment :: "string \<Rightarrow> string" where
  "analyze_sentiment text =
     (case positive_scores sentiment_keywords text of
        [] \<Rightarrow> ''neutral''
      | x # xs \<Rightarrow> fst (max_key x xs))"

definition determine_intent :: "string \<Rightarrow> string \<Rightarrow> string" where
  "determine_intent text cat =
     (if any_in [''how'', ''what'', ''when'', ''where'', ''why'', ''?''] text then ''question''
      else if any_in [''fix'', ''solve'', ''help'', ''support''] text then ''support_request''
      else if any_in [''refund'', ''cancel'', ''return''] text then ''refund_request''
      else if cat = ''complaint'' then ''complaint''
      else ''support_request'')"

definition stop_words :: "string list" where
  "stop_words =
     [''the'', ''and'', ''or'', ''but'', ''in'', ''on'', ''at'', ''to'', ''for'', ''of'', ''with'', ''by'',
      ''is'', ''are'', ''was'', ''were'', ''be'', ''been'', ''have'', ''has'', ''had'', ''do'', ''does'',
      ''did'', ''will'', ''would'', ''could'', ''should'', ''may'', ''might'', ''can'', ''cannot'',
      ''cant'', ''wont'', ''dont'', ''doesnt'', ''didnt'', ''havent'', ''hasnt'', ''hadnt'', ''isnt'',
      ''arent'', ''wasnt'', ''werent'', ''i'', ''you'', ''he'', ''she'', ''it'', ''we'', ''they'', ''me'',
      ''him'', ''her'', ''us'', ''them'', ''my'', ''your'', ''his'', ''her'', ''its'', ''our'', ''their'',
      ''this'', ''that'', ''these'', ''those'', ''a'', ''an'']"

text \<open>
  \<open>list(set(keywords))[:10]\<close>: the order in which a Python set of strings iterates is
  not fixed by the language (string hashing is randomised per process), so the conversion
  \<open>list(set(...))\<close> is the parameter \<open>list_set\<close>.
\<close>

definition extract_keywords :: "(string list \<Rightarrow> string list) \<Rightarrow> string \<Rightarrow> string list" where
  "extract_keywords list_set text =
     take 10 (list_set
       (filter (\<lambda>w. 3 < length w \<and> lower w \<notin> set stop_words) (findall_words [] text)))"

text \<open>
  Confidence is a Python float; the model computes with exact rationals, so the rounding
  of binary floating point is not represented.
\<close>

definition calculate_confidence :: "string \<Rightarrow> string \<Rightarrow> string \<Rightarrow> rat" where
  "calculate_confidence cat prio sent =
     (let base0 = 7 / 10;
          base1 = (if cat \<in> set [''technical'', ''billing''] then base0 + 1 / 10
                   else if cat = ''general'' then base0 - 1 / 10
                   else base0);
          base2 = (if prio \<in> set [''high'', ''low''] then base1 + 1 / 10 else base1);
          base3 = (if sent \<in> set [''positive'', ''negative''] then base2 + 1 / 10 else base2)
      in min base3 1)"

definition requires_human_review :: "string \<Rightarrow> string \<Rightarrow> string \<Rightarrow> string list \<Rightarrow> bool" where
  "requires_human_review cat prio sent kws =
     (if prio = ''high'' \<or> sent = ''negative'' then True
      else if cat = ''complaint'' then True
      else if cat = ''technical''
              \<and> list_ex (\<lambda>w. w \<in> set kws) [''crash'', ''data'', ''security'', ''breach''] then True
      else if cat = ''billing'' then True
      else False)"

definition needs_ticket :: "string \<Rightarrow> string \<Rightarrow> string \<Rightarrow> bool" where
  "needs_ticket cat prio intnt =
     (if prio = ''high'' then True
      else if cat = ''technical'' then True
      else if cat = ''complaint'' then True
      else if intnt = ''support_request'' \<and> cat \<noteq> ''general'' then True
      else False)"

datatype error = KeyError string | ValueError string | TypeError string | AttributeError string
  | Exception string

text \<open>The \<open>try\<close> block of \<open>AIEmailProcessor.analyze_email\<close>.\<close>

definition analyze_email_try ::
  "(string list \<Rightarrow> string list) \<Rightarrow> string \<Rightarrow> string \<Rightarrow> string \<Rightarrow> error + EmailAnalysis" where
  "analyze_email_try list_set email_content subject sender =
     (let full_text = lower (subject @ '' '' @ email_content);
          cat = categorize_email full_text;
          prio = determine_priority full_text;
          sent = analyze_sentiment full_text;
          intnt = determine_intent full_text cat;
          kws = extract_keywords list_set full_text;
          conf = calculate_confidence cat prio sent;
          human = requires_human_review cat prio sent kws;
          ticket = needs_ticket cat prio intnt
      in Inr \<lparr>category = cat, priority = prio, sentiment = sent, intent = intnt,
               confidence = conf, keywords_f = kws, requires_human = human,
               suggested_response = None, ticket_needed = ticket\<rparr>)"

text \<open>The safe defaults returned by the \<open>except\<close> branch.\<close>

definition safe_defaults :: EmailAnalysis where
  "safe_defaults =
     \<lparr>category = ''general'', priority = ''medium'', sentiment = ''neutral'',
      intent = ''support_request'', confidence = 1 / 2, keywords_f = [], requires_human = True,
      suggested_response = None, ticket_needed = True\<rparr>"

definition analyze_email ::
  "(string list \<Rightarrow> string list) \<Rightarrow> string \<Rightarrow> string \<Rightarrow> string \<Rightarrow> EmailAnalysis" where
  "analyze_email list_set email_content subject sender =
     (case analyze_email_try list_set email_content subject sender of
        Inr analysis \<Rightarrow> analysis
      | Inl e \<Rightarrow> safe_defaults)"

section \<open>JSON values and Python conversions\<close>

text \<open>
  The value \<open>json.loads\<close> returns. Numbers are exact rationals (Python's \<open>int\<close> and
  finite \<open>float\<close>); a JSON object is the Python dict, an association list with distinct
  keys in insertion order.
\<close>

datatype json = JNull | JBool bool | JNum rat | JStr string | JArr "json list"
  | JObj "(string \<times> json) list"

text \<open>\<open>d.get(k, dflt)\<close>\<close>

definition dict_get :: "(string \<times> json) list \<Rightarrow> string \<Rightarrow> json \<Rightarrow> json" where
  "dict_get d k dflt = (case map_of d k of Some v \<Rightarrow> v | None \<Rightarrow> dflt)"

text \<open>The truth value Python gives an object in \<open>if x:\<close>.\<close>

fun truthy :: "json \<Rightarrow> bool" where
  "truthy JNull = False"
| "truthy (JBool b) = b"
| "truthy (JNum r) = (r \<noteq> 0)"
| "truthy (JStr s) = (s \<noteq> [])"
| "truthy (JArr xs) = (xs \<noteq> [])"
| "truthy (JObj d) = (d \<noteq> [])"

text \<open>
  \<open>float(x)\<close>. Converting a string is Python's float parser, the parameter
  \<open>float_of_str\<close> (\<open>None\<close> where it raises ValueError).
\<close>

fun py_float :: "(string \<Rightarrow> rat option) \<Rightarrow> json \<Rightarrow> error + rat" where
  "py_float float_of_str (JNum r) = Inr r"
| "py_float float_of_str (JBool b) = Inr (if b then 1 else 0)"
| "py_float float_of_str (JStr s) =
     (case float_of_str s of
        Some r \<Rightarrow> Inr r
      | None \<Rightarrow> Inl (ValueError ''could not convert string to float''))"
| "py_float float_of_str JNull = Inl (TypeError ''float() argument must be a string or a real number'')"
| "py_float float_of_str (JArr xs) = Inl (TypeError ''float() argument must be a string or a real number'')"
| "py_float float_of_str (JObj d) = Inl (TypeError ''float() argument must be a string or a real number'')"

text \<open>\<open>s.find(c)\<close> and \<open>s.rfind(c)\<close> for a one-character \<open>c\<close>: the index, or -1.\<close>

fun find_index_of :: "char \<Rightarrow> string \<Rightarrow> nat option" where
  "find_index_of c [] = None"
| "find_index_of c (x # xs) = (if x = c then Some 0 else map_option Suc (find_index_of c xs))"

definition str_find :: "string \<Rightarrow> char \<Rightarrow> int" where
  "str_find s c = (case find_index_of c s of Some i \<Rightarrow> int i | None \<Rightarrow> - 1)"

definition str_rfind :: "string \<Rightarrow> char \<Rightarrow> int" where
  "str_rfind s c =
     (case find_index_of c (rev s) of
        Some i \<Rightarrow> int (length s) - 1 - int i
      | None \<Rightarrow> - 1)"

text \<open>\<open>s[a:b]\<close>, with Python's treatment of negative and out-of-range bounds.\<close>

definition slice_bound :: "string \<Rightarrow> int \<Rightarrow> int" where
  "slice_bound s i = (if i < 0 then max 0 (int (length s) + i) else min i (int (length s)))"

definition slice :: "string \<Rightarrow> int \<Rightarrow> int \<Rightarrow> string" where
  "slice s a b = take (nat (slice_bound s b - slice_bound s a)) (drop (nat (slice_bound s a)) s)"

section \<open>The inference-backed classifier (bedrock\_ai\_processor.py)\<close>

text \<open>
  \<open>bedrock_ai_processor.EmailAnalysis\<close>. The dataclass does not check its field types and
  \<open>_parse_ai_analysis\<close> stores what \<open>analysis_data.get\<close> returns, so every field read
  from the AI's JSON holds a JSON value; only \<open>confidence\<close> goes through \<open>float\<close>.
\<close>

record AIEmailAnalysis =
  ai_category :: json
  ai_priority :: json
  ai_sentiment :: json
  ai_intent :: json
  ai_confidence :: rat
  ai_keywords :: json
  ai_requires_human :: json
  ai_suggested_response :: "string option"
  ai_ticket_needed :: json
  ai_reasoning :: json

definition fallback_analysis :: "string \<Rightarrow> string \<Rightarrow> AIEmailAnalysis" where
  "fallback_analysis email_content subject =
     \<lparr>ai_category = JStr ''general'', ai_priority = JStr ''medium'',
      ai_sentiment = JStr ''neutral'', ai_intent = JStr ''support_request'',
      ai_confidence = 1 / 2, ai_keywords = JArr [], ai_requires_human = JBool True,
      ai_suggested_response = None, ai_ticket_needed = JBool True,
      ai_reasoning = JStr ''Fallback analysis - AI unavailable''\<rparr>"

text \<open>
  The \<open>try\<close> block of \<open>_parse_ai_analysis\<close>. \<open>json.loads\<close> is the parameter
  \<open>json_loads\<close> (\<open>None\<close> where it raises); calling \<open>.get\<close> on a value that is not a
  dict raises AttributeError.
\<close>

definition json_str_of :: "string \<Rightarrow> string" where
  "json_str_of ai_response = slice ai_response (str_find ai_response CHR ''{'') (str_rfind ai_response CHR ''}'' + 1)"

definition parse_ai_analysis_try ::
  "(string \<Rightarrow> json option) \<Rightarrow> (string \<Rightarrow> rat option) \<Rightarrow> string \<Rightarrow> error + AIEmailAnalysis" where
  "parse_ai_analysis_try json_loads float_of_str ai_response =
     (let json_start = str_find ai_response CHR ''{'';
          json_end = str_rfind ai_response CHR ''}'' + 1
      in if json_start = - 1 \<or> json_end = 0 then Inl (ValueError ''No JSON found in AI response'')
         else (case json_loads (slice ai_response json_start json_end) of
                 None \<Rightarrow> Inl (ValueError ''JSONDecodeError'')
               | Some (JObj analysis_data) \<Rightarrow>
                   (case py_float float_of_str (dict_get analysis_data ''confidence'' (JNum (7 / 10))) of
                      Inl e \<Rightarrow> Inl e
                    | Inr conf \<Rightarrow>
                        Inr \<lparr>ai_category = dict_get analysis_data ''category'' (JStr ''general''),
                             ai_priority = dict_get analysis_data ''priority'' (JStr ''medium''),
                             ai_sentiment = dict_get analysis_data ''sentiment'' (JStr ''neutral''),
                             ai_intent = dict_get analysis_data ''intent'' (JStr ''support_request''),
                             ai_confidence = conf,
                             ai_keywords = dict_get analysis_data ''keywords'' (JArr []),
                             ai_requires_human = dict_get analysis_data ''requires_human'' (JBool False),
                             ai_suggested_response = None,
                             ai_ticket_needed = dict_get analysis_data ''ticket_needed'' (JBool True),
                             ai_reasoning = dict_get analysis_data ''reasoning''
                               (JStr ''AI analysis completed'')\<rparr>)
               | Some other \<Rightarrow> Inl (AttributeError ''get'')))"

definition parse_ai_analysis ::
  "(string \<Rightarrow> json option) \<Rightarrow> (string \<Rightarrow> rat option) \<Rightarrow> string \<Rightarrow> AIEmailAnalysis" where
  "parse_ai_analysis json_loads float_of_str ai_response =
     (case parse_ai_analysis_try json_loads float_of_str ai_response of
        Inr analysis \<Rightarrow> analysis
      | Inl e \<Rightarrow> fallback_analysis [] [])"

text \<open>
  A knowledge-base result as the service builds it: a dict with the keys \<open>title\<close>,
  \<open>content\<close> and \<open>similarity\<close>.
\<close>

record kb_result =
  title :: string
  content :: string
  similarity :: rat

text \<open>
  The three prompts sent to the model. Each is a fixed template around the values below;
  the template text only reaches the external service, so a prompt is represented by the
  values that fill it.
\<close>

datatype prompt =
    AnalysisPrompt string string string
  | SearchPrompt string
  | ResponsePrompt AIEmailAnalysis string string "kb_result list"

definition create_analysis_prompt :: "string \<Rightarrow> string \<Rightarrow> string \<Rightarrow> prompt" where
  "create_analysis_prompt email_content subject sender = AnalysisPrompt email_content subject sender"

text \<open>
  \<open>self.bedrock\<close> is \<open>None\<close> when the client could not be built. Otherwise
  \<open>_call_bedrock_ai\<close> returns the model's text or re-raises what the call raised: the
  client is the function from the prompt to that outcome.
\<close>

type_synonym bedrock_client = "(prompt \<Rightarrow> error + string) option"

definition call_bedrock_ai :: "(prompt \<Rightarrow> error + string) \<Rightarrow> prompt \<Rightarrow> error + string" where
  "call_bedrock_ai invoke_model p = invoke_model p"

definition bedrock_analyze_email ::
  "bedrock_client \<Rightarrow> (string \<Rightarrow> json option) \<Rightarrow> (string \<Rightarrow> rat option)
     \<Rightarrow> string \<Rightarrow> string \<Rightarrow> string \<Rightarrow> AIEmailAnalysis" where
  "bedrock_analyze_email bedrock json_loads float_of_str email_content subject sender =
     (case bedrock of
        None \<Rightarrow> fallback_analysis email_content subject
      | Some invoke_model \<Rightarrow>
          (case call_bedrock_ai invoke_model (create_analysis_prompt email_content subject sender) of
             Inl e \<Rightarrow> fallback_analysis email_content subject
           | Inr analysis_result \<Rightarrow> parse_ai_analysis json_loads float_of_str analysis_result))"

text \<open>
  \<open>s.strip()\<close>: leading and trailing whitespace removed (the ASCII characters Python
  counts as whitespace).
\<close>

definition is_space :: "char \<Rightarrow> bool" where
  "is_space c =
     (c \<in> set [CHR 0x09, CHR 0x0A, CHR 0x0B, CHR 0x0C, CHR 0x0D, CHR 0x1C, CHR 0x1D, CHR 0x1E,
                CHR 0x1F, CHR 0x20])"

definition strip :: "string \<Rightarrow> string" where
  "strip s = rev (dropWhile is_space (rev (dropWhile is_space s)))"

text \<open>
  \<open>str(x)\<close> as an f-string applies it to a field of the analysis. A string is itself;
  the printed form of numbers, lists and dicts is the parameter \<open>py_repr\<close>.
\<close>

definition py_str :: "(json \<Rightarrow> string) \<Rightarrow> json \<Rightarrow> string" where
  "py_str py_repr v =
     (case v of
        JStr s \<Rightarrow> s
      | JNull \<Rightarrow> ''None''
      | JBool b \<Rightarrow> (if b then ''True'' else ''False'')
      | other \<Rightarrow> py_repr other)"

definition signature :: string where
  "signature = ''\<newline>\<newline>Best regards,\<newline>SuperTickets.AI Support Team''"

definition create_response_prompt ::
  "AIEmailAnalysis \<Rightarrow> string \<Rightarrow> string \<Rightarrow> kb_result list \<Rightarrow> prompt" where
  "create_response_prompt analysis email_content subject kb_results =
     ResponsePrompt analysis email_content subject (take 3 kb_results)"

definition format_response :: "string \<Rightarrow> AIEmailAnalysis \<Rightarrow> string" where
  "format_response ai_response analysis =
     (let response = strip ai_response;
          response1 =
            (if truthy (ai_ticket_needed analysis)
             then response @ ''\<newline>\<newline>A support ticket has been created for your request. You'll receive updates as we work on your issue.''
             else response)
      in response1 @ ''\<newline>\<newline>Best regards,\<newline>SuperTickets.AI Support Team'')"

definition fallback_response :: "(json \<Rightarrow> string) \<Rightarrow> AIEmailAnalysis \<Rightarrow> string" where
  "fallback_response py_repr analysis =
     ''Hello,\<newline>\<newline>Thank you for contacting SuperTickets.AI support. We've received your ''
     @ py_str py_repr (ai_category analysis)
     @ '' inquiry and our team will review it shortly.\<newline>\<newline>''
     @ (if truthy (ai_ticket_needed analysis) then ''A support ticket has been created and '' else [])
     @ ''You can expect a response within 24 hours.\<newline>\<newline>If you have any urgent concerns, please don't hesitate to contact us directly.\<newline>\<newline>Best regards,\<newline>SuperTickets.AI Support Team''"

definition generate_response ::
  "bedrock_client \<Rightarrow> (json \<Rightarrow> string) \<Rightarrow> AIEmailAnalysis \<Rightarrow> string \<Rightarrow> string \<Rightarrow> kb_result list
     \<Rightarrow> string" where
  "generate_response bedrock py_repr analysis email_content subject kb_results =
     (case bedrock of
        None \<Rightarrow> fallback_response py_repr analysis
      | Some invoke_model \<Rightarrow>
          (case call_bedrock_ai invoke_model
                  (create_response_prompt analysis email_content subject kb_results) of
             Inl e \<Rightarrow> fallback_response py_repr analysis
           | Inr ai_response \<Rightarrow> format_response ai_response analysis))"

definition search_knowledge_base_ai :: "bedrock_client \<Rightarrow> string \<Rightarrow> kb_result list" where
  "search_knowledge_base_ai bedrock query =
     (case bedrock of
        None \<Rightarrow> []
      | Some invoke_model \<Rightarrow>
          (case call_bedrock_ai invoke_model (SearchPrompt query) of
             Inl e \<Rightarrow> []
           | Inr ai_search_terms \<Rightarrow>
               [\<lparr>title = ''Common Solutions'',
                 content = ''Based on your query about '' @ [CHR 0x27] @ query @ [CHR 0x27]
                   @ '', here are some common solutions...'',
                 similarity = 4 / 5\<rparr>]))"

section \<open>The knowledge matcher (embedding\_search.py)\<close>

text \<open>
  A candidate row of the knowledge store, a dict: \<open>r.get("category")\<close> and
  \<open>x.get("similarity_score", 0)\<close> read keys that may be absent.
\<close>

record candidate =
  cand_id :: string
  cand_title :: string
  cand_content :: string
  cand_category :: "string option"
  similarity_score :: "rat option"

definition score_key :: "candidate \<Rightarrow> rat" where
  "score_key x = (case similarity_score x of Some v \<Rightarrow> v | None \<Rightarrow> 0)"

text \<open>The truth value of an \<open>Optional[str]\<close> in \<open>if category_filter:\<close>.\<close>

definition str_truthy :: "string option \<Rightarrow> bool" where
  "str_truthy x = (case x of None \<Rightarrow> False | Some s \<Rightarrow> s \<noteq> [])"

text \<open>
  \<open>EmbeddingSearch.search\<close>. The embedding provider and the store's vector search are the
  two collaborators; either may raise, and \<open>search\<close> re-raises. \<open>list.sort\<close> with
  \<open>reverse=True\<close> is stable, as is \<open>sort_key\<close> on the negated key.
\<close>

definition search ::
  "(string \<Rightarrow> error + rat list) \<Rightarrow> (rat list \<Rightarrow> rat \<Rightarrow> int \<Rightarrow> error + candidate list)
     \<Rightarrow> string \<Rightarrow> rat \<Rightarrow> int \<Rightarrow> string option \<Rightarrow> error + candidate list" where
  "search create_embedding search_knowledge_base query threshold limit category_filter =
     (case create_embedding query of
        Inl e \<Rightarrow> Inl e
      | Inr query_embedding \<Rightarrow>
          (case search_knowledge_base query_embedding threshold limit of
             Inl e \<Rightarrow> Inl e
           | Inr results \<Rightarrow>
               (let results1 =
                      (if str_truthy category_filter
                       then filter (\<lambda>r. cand_category r = category_filter) results
                       else results)
                in Inr (sort_key (\<lambda>x. - score_key x) results1))))"

section \<open>The email automation service (email\_automation\_service.py)\<close>

text \<open>
  An email is the dict \<open>_parse_email_message\<close> builds, or the one posted to the manual
  entry point; the model keeps its string-valued keys. \<open>email[k]\<close> raises KeyError on a
  missing key, \<open>email.get(k)\<close> returns \<open>None\<close>.
\<close>

type_synonym email = "string \<rightharpoonup> string"

definition email_key :: "email \<Rightarrow> string \<Rightarrow> error + string" where
  "email_key email k = (case email k of Some v \<Rightarrow> Inr v | None \<Rightarrow> Inl (KeyError k))"

record ticket_data =
  td_id :: string
  td_title :: string
  td_description :: string
  td_priority :: json
  td_category :: json
  td_status :: string
  td_customer_email :: string
  td_source :: string
  td_created_at :: string
  td_email_id :: string
  td_thread_id :: string
  td_sentiment :: json
  td_confidence :: rat
  td_keywords :: json

record email_data =
  ed_to :: string
  ed_subject :: string
  ed_body :: string
  ed_thread_id :: string

record send_result =
  sr_message_id :: string
  sr_thread_id :: string
  sr_status :: string

record processed_log =
  pl_id :: string
  pl_email_id :: string
  pl_sender_email :: string
  pl_subject :: string
  pl_category :: json
  pl_priority :: json
  pl_sentiment :: json
  pl_confidence :: rat
  pl_ticket_created :: bool
  pl_ticket_id :: "string option"
  pl_requires_human :: json
  pl_created_at :: string
  pl_keywords :: json
  pl_thread_id :: string

record sent_log =
  sl_id :: string
  sl_recipient_email :: string
  sl_subject :: string
  sl_message_id :: string
  sl_thread_id :: string
  sl_source :: string
  sl_created_at :: string

text \<open>A row of the table \<open>support_interactions\<close>, by its \<open>interaction_type\<close>.\<close>

datatype interaction = EmailProcessed processed_log | EmailSent sent_log

text \<open>
  The collaborators of the service. Each call is a function from the request to its
  outcome: \<open>Some e\<close> or \<open>Inl e\<close> is the exception the call raises (a missing client
  included). \<open>uuid4\<close> gives the n-th identifier drawn and \<open>utcnow\<close> the clock reading.
\<close>

record collab =
  bedrock :: bedrock_client
  json_loads_c :: "string \<Rightarrow> json option"
  float_of_str_c :: "string \<Rightarrow> rat option"
  py_repr_c :: "json \<Rightarrow> string"
  uuid4 :: "nat \<Rightarrow> string"
  utcnow :: string
  insert_ticket :: "ticket_data \<Rightarrow> error option"
  insert_interaction :: "interaction \<Rightarrow> error option"
  send_email :: "email_data \<Rightarrow> error + send_result"
  modify_unread :: "string option \<Rightarrow> error option"

text \<open>
  The state the service acts on: its own set \<open>processed_emails\<close>, the rows accepted by
  the two tables, the messages the outbox accepted, the ids marked read, the number of
  identifiers drawn, and the lines written by \<open>logger.error\<close> (message and exception).
\<close>

record world =
  processed_emails :: "string option set"
  support_tickets :: "ticket_data list"
  support_interactions :: "interaction list"
  sent_mail :: "email_data list"
  read_ids :: "string option list"
  uuid_calls :: nat
  error_log :: "(string \<times> error) list"

definition log_error :: "world \<Rightarrow> string \<Rightarrow> error \<Rightarrow> world" where
  "log_error w msg e = w\<lparr>error_log := error_log w @ [(msg, e)]\<rparr>"

text \<open>
  \<open>re.search(r'<(.+?)>', sender)\<close>: at the leftmost \<open><\<close> from which it can match, one
  or more characters other than a newline, as few as possible, up to a \<open>></\<close>.
  \<open>lazy_group\<close> reads the group after its first character.
\<close>

fun lazy_group :: "string \<Rightarrow> string \<Rightarrow> string option" where
  "lazy_group acc [] = None"
| "lazy_group acc (d # ds) =
     (if d = CHR ''>'' then Some acc
      else if d = CHR 0x0A then None
      else lazy_group (acc @ [d]) ds)"

definition match_group :: "string \<Rightarrow> string option" where
  "match_group rest =
     (case rest of
        [] \<Rightarrow> None
      | c # cs \<Rightarrow> (if c = CHR 0x0A then None else lazy_group [c] cs))"

fun search_angle :: "string \<Rightarrow> string option" where
  "search_angle [] = None"
| "search_angle (c # cs) =
     (if c = CHR ''<''
      then (case match_group cs of Some g \<Rightarrow> Some g | None \<Rightarrow> search_angle cs)
      else search_angle cs)"

definition extract_email_address :: "string \<Rightarrow> string" where
  "extract_email_address sender =
     (case search_angle sender of
        Some g \<Rightarrow> g
      | None \<Rightarrow> (if str_in ''@'' sender then strip sender else sender))"

text \<open>The dict literal of \<open>_create_support_ticket\<close>, its keys read in source order.\<close>

definition build_ticket_data ::
  "collab \<Rightarrow> string \<Rightarrow> email \<Rightarrow> AIEmailAnalysis \<Rightarrow> error + ticket_data" where
  "build_ticket_data c uid email analysis =
     (case email_key email ''subject'' of Inl e \<Rightarrow> Inl e | Inr subject \<Rightarrow>
      case email_key email ''body'' of Inl e \<Rightarrow> Inl e | Inr body \<Rightarrow>
      case email_key email ''sender'' of Inl e \<Rightarrow> Inl e | Inr sender \<Rightarrow>
      case email_key email ''id'' of Inl e \<Rightarrow> Inl e | Inr eid \<Rightarrow>
      case email_key email ''thread_id'' of Inl e \<Rightarrow> Inl e | Inr thread \<Rightarrow>
        Inr \<lparr>td_id = uid, td_title = subject, td_description = take 1000 body,
             td_priority = ai_priority analysis, td_category = ai_category analysis,
             td_status = ''open'', td_customer_email = extract_email_address sender,
             td_source = ''email_automation'', td_created_at = utcnow c,
             td_email_id = eid, td_thread_id = thread,
             td_sentiment = ai_sentiment analysis, td_confidence = ai_confidence analysis,
             td_keywords = ai_keywords analysis\<rparr>)"

definition create_support_ticket ::
  "collab \<Rightarrow> world \<Rightarrow> email \<Rightarrow> AIEmailAnalysis \<Rightarrow> world \<times> string option" where
  "create_support_ticket c w email analysis =
     (let uid = uuid4 c (uuid_calls w);
          w1 = w\<lparr>uuid_calls := Suc (uuid_calls w)\<rparr>
      in case build_ticket_data c uid email analysis of
           Inl e \<Rightarrow> (log_error w1 ''Failed to create support ticket'' e, None)
         | Inr ticket \<Rightarrow>
             (case insert_ticket c ticket of
                Some e \<Rightarrow> (log_error w1 ''Failed to create support ticket'' e, None)
              | None \<Rightarrow>
                  (w1\<lparr>support_tickets := support_tickets w1 @ [ticket]\<rparr>, Some (td_id ticket))))"

definition log_email_sent :: "collab \<Rightarrow> world \<Rightarrow> email_data \<Rightarrow> send_result \<Rightarrow> world" where
  "log_email_sent c w message sent =
     (let uid = uuid4 c (uuid_calls w);
          w1 = w\<lparr>uuid_calls := Suc (uuid_calls w)\<rparr>;
          row = EmailSent
            \<lparr>sl_id = uid, sl_recipient_email = ed_to message, sl_subject = ed_subject message,
             sl_message_id = sr_message_id sent, sl_thread_id = sr_thread_id sent,
             sl_source = ''automation'', sl_created_at = utcnow c\<rparr>
      in case insert_interaction c row of
           Some e \<Rightarrow> log_error w1 ''Failed to log sent email'' e
         | None \<Rightarrow> w1\<lparr>support_interactions := support_interactions w1 @ [row]\<rparr>)"

text \<open>
  The message \<open>_send_automated_response\<close> hands to the outbox. \<open>if ticket_id:\<close> holds for
  a ticket id that is neither \<open>None\<close> nor empty.
\<close>

definition build_email_data ::
  "email \<Rightarrow> string \<Rightarrow> string option \<Rightarrow> error + email_data" where
  "build_email_data email response ticket_id =
     (case email_key email ''sender'' of Inl e \<Rightarrow> Inl e | Inr sender \<Rightarrow>
      case email_key email ''subject'' of Inl e \<Rightarrow> Inl e | Inr subject \<Rightarrow>
      case email_key email ''thread_id'' of Inl e \<Rightarrow> Inl e | Inr thread \<Rightarrow>
        Inr \<lparr>ed_to = extract_email_address sender,
             ed_subject = ''Re: '' @ subject,
             ed_body =
               (case ticket_id of
                  None \<Rightarrow> response
                | Some tid \<Rightarrow>
                    (if tid \<noteq> [] then response @ ''\<newline>\<newline>Ticket Reference: #'' @ take 8 tid
                     else response)),
             ed_thread_id = thread\<rparr>)"

definition send_automated_response ::
  "collab \<Rightarrow> world \<Rightarrow> email \<Rightarrow> string \<Rightarrow> AIEmailAnalysis \<Rightarrow> string option \<Rightarrow> world" where
  "send_automated_response c w email response analysis ticket_id =
     (case build_email_data email response ticket_id of
        Inl e \<Rightarrow> log_error w ''Failed to send automated response'' e
      | Inr message \<Rightarrow>
          (case send_email c message of
             Inl e \<Rightarrow> log_error w ''Failed to send automated response'' e
           | Inr sent \<Rightarrow> log_email_sent c (w\<lparr>sent_mail := sent_mail w @ [message]\<rparr>) message sent))"

definition build_processed_log ::
  "collab \<Rightarrow> string \<Rightarrow> email \<Rightarrow> AIEmailAnalysis \<Rightarrow> string option \<Rightarrow> error + processed_log" where
  "build_processed_log c uid email analysis ticket_id =
     (case email_key email ''id'' of Inl e \<Rightarrow> Inl e | Inr eid \<Rightarrow>
      case email_key email ''sender'' of Inl e \<Rightarrow> Inl e | Inr sender \<Rightarrow>
      case email_key email ''subject'' of Inl e \<Rightarrow> Inl e | Inr subject \<Rightarrow>
      case email_key email ''thread_id'' of Inl e \<Rightarrow> Inl e | Inr thread \<Rightarrow>
        Inr \<lparr>pl_id = uid, pl_email_id = eid, pl_sender_email = extract_email_address sender,
             pl_subject = subject, pl_category = ai_category analysis,
             pl_priority = ai_priority analysis, pl_sentiment = ai_sentiment analysis,
             pl_confidence = ai_confidence analysis, pl_ticket_created = (ticket_id \<noteq> None),
             pl_ticket_id = ticket_id, pl_requires_human = ai_requires_human analysis,
             pl_created_at = utcnow c, pl_keywords = ai_keywords analysis,
             pl_thread_id = thread\<rparr>)"

definition log_email_processing ::
  "collab \<Rightarrow> world \<Rightarrow> email \<Rightarrow> AIEmailAnalysis \<Rightarrow> string option \<Rightarrow> world" where
  "log_email_processing c w email analysis ticket_id =
     (let uid = uuid4 c (uuid_calls w);
          w1 = w\<lparr>uuid_calls := Suc (uuid_calls w)\<rparr>
      in case build_processed_log c uid email analysis ticket_id of
           Inl e \<Rightarrow> log_error w1 ''Failed to log email processing'' e
         | Inr row \<Rightarrow>
             (case insert_interaction c (EmailProcessed row) of
                Some e \<Rightarrow> log_error w1 ''Failed to log email processing'' e
              | None \<Rightarrow>
                  w1\<lparr>support_interactions := support_interactions w1 @ [EmailProcessed row]\<rparr>))"

text \<open>
  The reply gate of \<open>_process_single_email\<close>: \<open>not analysis.requires_human or kb_results\<close>.
\<close>

definition reply_gate :: "AIEmailAnalysis \<Rightarrow> kb_result list \<Rightarrow> bool" where
  "reply_gate analysis kb_results = (\<not> truthy (ai_requires_human analysis) \<or> kb_results \<noteq> [])"

text \<open>
  Steps 3 to 6 of \<open>_process_single_email\<close>, once the three keys read by steps 1 and 2
  are known to be present: the ticket step, the reply step (generate and send), and the
  log step. None of them raises.
\<close>

definition ticket_step ::
  "collab \<Rightarrow> world \<Rightarrow> email \<Rightarrow> AIEmailAnalysis \<Rightarrow> world \<times> string option" where
  "ticket_step c w email analysis =
     (if truthy (ai_ticket_needed analysis) then create_support_ticket c w email analysis
      else (w, None))"

definition reply_step ::
  "collab \<Rightarrow> world \<Rightarrow> email \<Rightarrow> string \<Rightarrow> string \<Rightarrow> AIEmailAnalysis \<Rightarrow> kb_result list
     \<Rightarrow> string option \<Rightarrow> world" where
  "reply_step c w email subject body analysis kb_results ticket_id =
     (if reply_gate analysis kb_results
      then send_automated_response c w email
             (generate_response (bedrock c) (py_repr_c c) analysis body subject kb_results)
             analysis ticket_id
      else w)"

definition process_steps ::
  "collab \<Rightarrow> world \<Rightarrow> email \<Rightarrow> string \<Rightarrow> string \<Rightarrow> AIEmailAnalysis \<Rightarrow> kb_result list \<Rightarrow> world" where
  "process_steps c w email subject body analysis kb_results =
     (let w1 = fst (ticket_step c w email analysis);
          ticket_id = snd (ticket_step c w email analysis);
          w2 = reply_step c w1 email subject body analysis kb_results ticket_id
      in log_email_processing c w2 email analysis ticket_id)"

text \<open>
  \<open>_process_single_email\<close>. The result pairs the exception it raises outward, if any, with
  the state it leaves. Only the key reads of the first two statements can raise; the
  handler logs and re-raises.
\<close>

definition process_single_email :: "collab \<Rightarrow> world \<Rightarrow> email \<Rightarrow> error option \<times> world" where
  "process_single_email c w email =
     (case email_key email ''subject'' of
        Inl e \<Rightarrow> (Some e, log_error w ''Failed to process email'' e)
      | Inr subject \<Rightarrow>
     (case email_key email ''sender'' of
        Inl e \<Rightarrow> (Some e, log_error w ''Failed to process email'' e)
      | Inr sender \<Rightarrow>
     (case email_key email ''body'' of
        Inl e \<Rightarrow> (Some e, log_error w ''Failed to process email'' e)
      | Inr body \<Rightarrow>
          (let analysis = bedrock_analyze_email (bedrock c) (json_loads_c c) (float_of_str_c c)
                 body subject sender;
               kb_results = search_knowledge_base_ai (bedrock c) (subject @ '' '' @ body)
           in (None, process_steps c w email subject body analysis kb_results)))))"

definition mark_email_as_read :: "collab \<Rightarrow> world \<Rightarrow> string option \<Rightarrow> world" where
  "mark_email_as_read c w email_id =
     (case modify_unread c email_id of
        Some e \<Rightarrow> log_error w ''Failed to mark email as read'' e
      | None \<Rightarrow> w\<lparr>read_ids := read_ids w @ [email_id]\<rparr>)"

text \<open>
  The \<open>for\<close> loop of \<open>_process_new_emails\<close> over the emails \<open>_fetch_emails\<close>
  returned.
\<close>

fun process_new_emails :: "collab \<Rightarrow> world \<Rightarrow> email list \<Rightarrow> world" where
  "process_new_emails c w [] = w"
| "process_new_emails c w (email # emails) =
     (let email_id = email ''id''
      in if email_id \<in> processed_emails w then process_new_emails c w emails
         else (case process_single_email c w email of
                 (Some e, w1) \<Rightarrow>
                   process_new_emails c (log_error w1 ''Failed to process email'' e) emails
               | (None, w1) \<Rightarrow>
                   process_new_emails c
                     (mark_email_as_read c
                        (w1\<lparr>processed_emails := insert email_id (processed_emails w1)\<rparr>) email_id)
                     emails))"

text \<open>
  The messages the outbox accepts in one call of \<open>_send_automated_response\<close>: the built
  message if it could be built and \<open>send_email\<close> returned, none otherwise.
\<close>

definition outbox_accepts :: "collab \<Rightarrow> email \<Rightarrow> string \<Rightarrow> string option \<Rightarrow> email_data list" where
  "outbox_accepts c email response ticket_id =
     (case build_email_data email response ticket_id of
        Inl e \<Rightarrow> []
      | Inr message \<Rightarrow> (case send_email c message of Inl e \<Rightarrow> [] | Inr sent \<Rightarrow> [message]))"

text \<open>
  An email on which \<open>_process_single_email\<close> does not raise: the keys its first two
  statements read are present.
\<close>

definition well_formed :: "email \<Rightarrow> bool" where
  "well_formed email =
     (email ''subject'' \<noteq> None \<and> email ''sender'' \<noteq> None \<and> email ''body'' \<noteq> None)"

text \<open>The text that follows the first occurrence of \<open>k\<close> in \<open>text\<close>, if \<open>k\<close> occurs.\<close>

fun text_after :: "string \<Rightarrow> string \<Rightarrow> string option" where
  "text_after k [] = (if k = [] then Some [] else None)"
| "text_after k (c # cs) =
     (if startswith k (c # cs) then Some (drop (length k) (c # cs)) else text_after k cs)"

section \<open>Sample replies of the inference service\<close>

text \<open>
  Two texts the model can answer with, and the objects \<open>json.loads\<close> decodes them to.
  The first is a well-formed reply whose fields do not respect the policy; the second
  wraps a policy-respecting object in prose. The others are replies that cannot be decoded
  and a call that raises.
\<close>

definition reply_unchecked :: string where
  "reply_unchecked =
     ''{\"priority\": \"high\", \"confidence\": 1.5, \"requires_human\": false, \"ticket_needed\": false}''"

definition loads_unchecked :: "string \<Rightarrow> json option" where
  "loads_unchecked s =
     (if s = reply_unchecked
      then Some (JObj [(''priority'', JStr ''high''), (''confidence'', JNum (3 / 2)),
                       (''requires_human'', JBool False), (''ticket_needed'', JBool False)])
      else None)"

definition invoke_unchecked :: "prompt \<Rightarrow> error + string" where
  "invoke_unchecked p = Inr reply_unchecked"

definition object_consistent :: string where
  "object_consistent =
     ''{\"category\": \"technical\", \"priority\": \"high\", \"sentiment\": \"negative\", \"confidence\": 0.85, \"requires_human\": true, \"ticket_needed\": true}''"

definition reply_consistent :: string where
  "reply_consistent = ''Analysis: '' @ object_consistent @ '' done''"

definition loads_consistent :: "string \<Rightarrow> json option" where
  "loads_consistent s =
     (if s = object_consistent
      then Some (JObj [(''category'', JStr ''technical''), (''priority'', JStr ''high''),
                       (''sentiment'', JStr ''negative''), (''confidence'', JNum (17 / 20)),
                       (''requires_human'', JBool True), (''ticket_needed'', JBool True)])
      else None)"

definition invoke_consistent :: "prompt \<Rightarrow> error + string" where
  "invoke_consistent p = Inr reply_consistent"

definition invoke_garbled :: "prompt \<Rightarrow> error + string" where
  "invoke_garbled p = Inr ''{category: technical''"

definition invoke_undecodable :: "prompt \<Rightarrow> error + string" where
  "invoke_undecodable p = Inr ''{category: technical}''"

definition invoke_raises :: "prompt \<Rightarrow> error + string" where
  "invoke_raises p = Inl (Exception ''ThrottlingException'')"

definition no_float_of_str :: "string \<Rightarrow> rat option" where
  "no_float_of_str s = None"

section \<open>Sample messages, stores and collaborators\<close>

definition embed_ok :: "string \<Rightarrow> error + rat list" where
  "embed_ok q = Inr [1 / 10, 1 / 5]"

definition row_refund :: candidate where
  "row_refund =
     \<lparr>cand_id = ''2'', cand_title = ''Refunds'', cand_content = ''Refund policy'',
      cand_category = Some ''billing'', similarity_score = Some (4 / 5)\<rparr>"

definition row_two_factor :: candidate where
  "row_two_factor =
     \<lparr>cand_id = ''3'', cand_title = ''Two-factor'', cand_content = ''Enable 2FA'',
      cand_category = Some ''authentication'', similarity_score = Some (87 / 100)\<rparr>"

definition row_reset :: candidate where
  "row_reset =
     \<lparr>cand_id = ''1'', cand_title = ''Password reset'', cand_content = ''Use the reset link'',
      cand_category = Some ''authentication'', similarity_score = Some (19 / 20)\<rparr>"

definition store_ok :: "rat list \<Rightarrow> rat \<Rightarrow> int \<Rightarrow> error + candidate list" where
  "store_ok v threshold limit = Inr [row_refund, row_two_factor, row_reset]"

definition sample_email :: email where
  "sample_email =
     map_of [(''id'', ''msg-1''), (''thread_id'', ''thr-1''), (''subject'', ''System outage''),
             (''sender'', ''Ann <ann@example.com>''), (''body'', ''URGENT: production is down'')]"

definition world0 :: world where
  "world0 = \<lparr>processed_emails = {}, support_tickets = [], support_interactions = [],
             sent_mail = [], read_ids = [], uuid_calls = 0, error_log = []\<rparr>"

definition invoke_auto :: "prompt \<Rightarrow> error + string" where
  "invoke_auto p =
     (case p of
        AnalysisPrompt email_content subject sender \<Rightarrow> Inr reply_consistent
      | SearchPrompt query \<Rightarrow> Inr ''outage''
      | ResponsePrompt analysis email_content subject kb_results \<Rightarrow>
          Inr ''Hello Ann,\<newline>\<newline>We are looking into the outage.\<newline>'')"

definition sample_uuid4 :: "nat \<Rightarrow> string" where
  "sample_uuid4 n =
     (if n = 0 then ''3f2a9c1e-5b7d-4e21-9a40-0c1d2e3f4a5b''
      else if n = 1 then ''7c9e6679-7425-40de-944b-e07fc1f90ae7''
      else ''16fd2706-8baf-433b-82eb-8c7fada847da'')"

definition sample_send :: "email_data \<Rightarrow> error + send_result" where
  "sample_send m =
     Inr \<lparr>sr_message_id = ''sent-1'', sr_thread_id = ed_thread_id m, sr_status = ''sent''\<rparr>"

definition sample_repr :: "json \<Rightarrow> string" where
  "sample_repr v = ''[]''"

definition accept_ticket :: "ticket_data \<Rightarrow> error option" where
  "accept_ticket t = None"

definition reject_ticket :: "ticket_data \<Rightarrow> error option" where
  "reject_ticket t = Some (Exception ''Supabase unavailable'')"

definition accept_interaction :: "interaction \<Rightarrow> error option" where
  "accept_interaction r = None"

definition accept_modify :: "string option \<Rightarrow> error option" where
  "accept_modify i = None"

definition reject_send :: "email_data \<Rightarrow> error + send_result" where
  "reject_send m = Inl (Exception ''Gmail API error'')"

text \<open>Every collaborator answers; the model's analysis is the policy-respecting one.\<close>

definition collab_ok :: collab where
  "collab_ok =
     \<lparr>bedrock = Some invoke_auto, json_loads_c = loads_consistent,
      float_of_str_c = no_float_of_str, py_repr_c = sample_repr,
      uuid4 = sample_uuid4, utcnow = ''2024-05-01T10:00:00'',
      insert_ticket = accept_ticket, insert_interaction = accept_interaction,
      send_email = sample_send, modify_unread = accept_modify\<rparr>"

text \<open>The outbox raises on every send.\<close>

definition collab_send_fails :: collab where
  "collab_send_fails = collab_ok\<lparr>send_email := reject_send\<rparr>"

text \<open>The ticket table raises on every insert.\<close>

definition collab_ticket_fails :: collab where
  "collab_ticket_fails = collab_ok\<lparr>insert_ticket := reject_ticket\<rparr>"

text \<open>There is no inference client.\<close>

definition collab_no_ai :: collab where
  "collab_no_ai = collab_ok\<lparr>bedrock := None\<rparr>"

text \<open>The reply the outbox receives for the sample email when every collaborator answers.\<close>

definition sample_reply_body :: string where
  "sample_reply_body =
     ''Hello Ann,\<newline>\<newline>We are looking into the outage.\<newline>\<newline>A support ticket has been created for your request. You'll receive updates as we work on your issue.\<newline>\<newline>Best regards,\<newline>SuperTickets.AI Support Team\<newline>\<newline>Ticket Reference: #3f2a9c1e''"

section \<open>Scenario A on the keyword-rule classifier\<close>

lemma scenario_A_full_text:
  "lower (''System outage'' @ '' '' @ ''URGENT: production is down'')
     = ''system outage urgent: production is down''"
  by (simp add: lower_def lower_char_def)

lemma scenario_A_category:
  "categorize_email ''system outage urgent: production is down'' = ''general''"
  by (simp add: categorize_email_def positive_scores_def categories_def keyword_score_def)

lemma scenario_A_priority:
  "determine_priority ''system outage urgent: production is down'' = ''high''"
  by (simp add: determine_priority_def priority_keywords_def any_in_def)

lemma scenario_A_fields:
  "analyze_email list_set ''URGENT: production is down'' ''System outage'' sender
     = \<lparr>category = ''general'', priority = ''high'',
        sentiment = analyze_sentiment ''system outage urgent: production is down'',
        intent = determine_intent ''system outage urgent: production is down'' ''general'',
        confidence = calculate_confidence ''general'' ''high''
          (analyze_sentiment ''system outage urgent: production is down''),
        keywords_f = extract_keywords list_set ''system outage urgent: production is down'',
        requires_human = True, suggested_response = None, ticket_needed = True\<rparr>"
  unfolding analyze_email_def analyze_email_try_def scenario_A_full_text Let_def
    scenario_A_category scenario_A_priority
  by (simp add: requires_human_review_def needs_ticket_def)

text \<open>
  C2 (as stated, refuted): on body "URGENT: production is down" and subject "System outage"
  the rule-variant classifier does not return category "technical". No keyword of the
  technical row occurs in the lowered text, and no keyword of any other row either, so the
  category is the default "general".
\<close>

theorem C2_scenario_A_category_counterexample:
  "category (analyze_email remdups ''URGENT: production is down'' ''System outage''
      ''customer@example.com'') \<noteq> ''technical''"
  unfolding scenario_A_fields by simp

text \<open>
  C2 (amended): on body "URGENT: production is down" and subject "System outage" the
  rule-variant classifier returns category "general", priority "high", ticket\_needed true
  and requires\_human true, for every sender and every iteration order of the keyword set.
\<close>

theorem C2_scenario_A_analysis:
  "category (analyze_email list_set ''URGENT: production is down'' ''System outage'' sender)
      = ''general''
   \<and> priority (analyze_email list_set ''URGENT: production is down'' ''System outage'' sender)
      = ''high''
   \<and> ticket_needed (analyze_email list_set ''URGENT: production is down'' ''System outage'' sender)
   \<and> requires_human (analyze_email list_set ''URGENT: production is down'' ''System outage'' sender)"
  unfolding scenario_A_fields by simp

section \<open>The analysis policy on both classifiers\<close>

lemma calculate_confidence_bounds:
  "3 / 5 \<le> calculate_confidence cat prio sent \<and> calculate_confidence cat prio sent \<le> 1"
  by (simp add: calculate_confidence_def Let_def min_def)

lemma analyze_email_fields:
  "analyze_email list_set c s f =
     \<lparr>category = categorize_email (lower (s @ '' '' @ c)),
      priority = determine_priority (lower (s @ '' '' @ c)),
      sentiment = analyze_sentiment (lower (s @ '' '' @ c)),
      intent = determine_intent (lower (s @ '' '' @ c)) (categorize_email (lower (s @ '' '' @ c))),
      confidence = calculate_confidence (categorize_email (lower (s @ '' '' @ c)))
        (determine_priority (lower (s @ '' '' @ c))) (analyze_sentiment (lower (s @ '' '' @ c))),
      keywords_f = extract_keywords list_set (lower (s @ '' '' @ c)),
      requires_human = requires_human_review (categorize_email (lower (s @ '' '' @ c)))
        (determine_priority (lower (s @ '' '' @ c))) (analyze_sentiment (lower (s @ '' '' @ c)))
        (extract_keywords list_set (lower (s @ '' '' @ c))),
      suggested_response = None,
      ticket_needed = needs_ticket (categorize_email (lower (s @ '' '' @ c)))
        (determine_priority (lower (s @ '' '' @ c)))
        (determine_intent (lower (s @ '' '' @ c)) (categorize_email (lower (s @ '' '' @ c))))\<rparr>"
  by (simp add: analyze_email_def analyze_email_try_def Let_def)

lemma parse_ai_analysis_cases:
  "parse_ai_analysis json_loads fos txt = fallback_analysis [] []
   \<or> (\<exists>d r. json_loads (json_str_of txt) = Some (JObj d)
          \<and> py_float fos (dict_get d ''confidence'' (JNum (7 / 10))) = Inr r
          \<and> parse_ai_analysis json_loads fos txt =
              \<lparr>ai_category = dict_get d ''category'' (JStr ''general''),
               ai_priority = dict_get d ''priority'' (JStr ''medium''),
               ai_sentiment = dict_get d ''sentiment'' (JStr ''neutral''),
               ai_intent = dict_get d ''intent'' (JStr ''support_request''),
               ai_confidence = r,
               ai_keywords = dict_get d ''keywords'' (JArr []),
               ai_requires_human = dict_get d ''requires_human'' (JBool False),
               ai_suggested_response = None,
               ai_ticket_needed = dict_get d ''ticket_needed'' (JBool True),
               ai_reasoning = dict_get d ''reasoning'' (JStr ''AI analysis completed'')\<rparr>)"
  unfolding parse_ai_analysis_def parse_ai_analysis_try_def Let_def json_str_of_def
  by (auto split: option.splits json.splits sum.splits)

text \<open>
  Every result of the inference-backed \<open>analyze_email\<close> is the fallback analysis or the
  field-by-field copy of the JSON object decoded from the service's reply to this message.
\<close>

lemma bedrock_analyze_email_shape:
  "bedrock_analyze_email b json_loads fos c s f = fallback_analysis [] []
   \<or> (\<exists>invoke_model reply d r. b = Some invoke_model
          \<and> invoke_model (create_analysis_prompt c s f) = Inr reply
          \<and> json_loads (json_str_of reply) = Some (JObj d)
          \<and> py_float fos (dict_get d ''confidence'' (JNum (7 / 10))) = Inr r
          \<and> bedrock_analyze_email b json_loads fos c s f =
              \<lparr>ai_category = dict_get d ''category'' (JStr ''general''),
               ai_priority = dict_get d ''priority'' (JStr ''medium''),
               ai_sentiment = dict_get d ''sentiment'' (JStr ''neutral''),
               ai_intent = dict_get d ''intent'' (JStr ''support_request''),
               ai_confidence = r,
               ai_keywords = dict_get d ''keywords'' (JArr []),
               ai_requires_human = dict_get d ''requires_human'' (JBool False),
               ai_suggested_response = None,
               ai_ticket_needed = dict_get d ''ticket_needed'' (JBool True),
               ai_reasoning = dict_get d ''reasoning'' (JStr ''AI analysis completed'')\<rparr>)"
proof (cases b)
  case None
  then show ?thesis by (simp add: bedrock_analyze_email_def fallback_analysis_def)
next
  case (Some invoke_model)
  show ?thesis
  proof (cases "invoke_model (create_analysis_prompt c s f)")
    case (Inl e)
    with Some show ?thesis
      by (simp add: bedrock_analyze_email_def call_bedrock_ai_def fallback_analysis_def)
  next
    case (Inr reply)
    with Some have eq: "bedrock_analyze_email b json_loads fos c s f
        = parse_ai_analysis json_loads fos reply"
      by (simp add: bedrock_analyze_email_def call_bedrock_ai_def)
    from parse_ai_analysis_cases [of json_loads fos reply] Some Inr show ?thesis
      unfolding eq by blast
  qed
qed

lemma json_str_of_reply_unchecked: "json_str_of reply_unchecked = reply_unchecked"
  by (simp add: reply_unchecked_def json_str_of_def str_find_def str_rfind_def slice_def
      slice_bound_def)

lemma find_reply_unchecked: "str_find reply_unchecked CHR ''{'' = 0"
  by (simp add: reply_unchecked_def str_find_def)

lemma rfind_reply_unchecked:
  "str_rfind reply_unchecked CHR ''}'' + 1 = int (length reply_unchecked)"
  by (simp add: reply_unchecked_def str_rfind_def)

lemma parse_reply_unchecked:
  "parse_ai_analysis loads_unchecked fos reply_unchecked =
     \<lparr>ai_category = JStr ''general'', ai_priority = JStr ''high'',
      ai_sentiment = JStr ''neutral'', ai_intent = JStr ''support_request'',
      ai_confidence = 3 / 2, ai_keywords = JArr [], ai_requires_human = JBool False,
      ai_suggested_response = None, ai_ticket_needed = JBool False,
      ai_reasoning = JStr ''AI analysis completed''\<rparr>"
proof -
  have js: "slice reply_unchecked (str_find reply_unchecked CHR ''{'')
      (str_rfind reply_unchecked CHR ''}'' + 1) = reply_unchecked"
    using json_str_of_reply_unchecked by (simp add: json_str_of_def)
  have len: "length reply_unchecked \<noteq> 0" by (simp add: reply_unchecked_def)
  show ?thesis
    unfolding parse_ai_analysis_def parse_ai_analysis_try_def Let_def js
    using len
    by (simp add: find_reply_unchecked rfind_reply_unchecked loads_unchecked_def dict_get_def)
qed

lemma analyze_unchecked:
  "bedrock_analyze_email (Some invoke_unchecked) loads_unchecked fos c s f =
     \<lparr>ai_category = JStr ''general'', ai_priority = JStr ''high'',
      ai_sentiment = JStr ''neutral'', ai_intent = JStr ''support_request'',
      ai_confidence = 3 / 2, ai_keywords = JArr [], ai_requires_human = JBool False,
      ai_suggested_response = None, ai_ticket_needed = JBool False,
      ai_reasoning = JStr ''AI analysis completed''\<rparr>"
  using parse_reply_unchecked [of fos]
  by (simp add: bedrock_analyze_email_def call_bedrock_ai_def invoke_unchecked_def)

lemma json_str_of_reply_consistent: "json_str_of reply_consistent = object_consistent"
  by (simp add: reply_consistent_def object_consistent_def json_str_of_def str_find_def
      str_rfind_def slice_def slice_bound_def)

lemma find_reply_consistent: "str_find reply_consistent CHR ''{'' = 10"
  by (simp add: reply_consistent_def object_consistent_def str_find_def)

lemma rfind_reply_consistent: "str_rfind reply_consistent CHR ''}'' + 1 \<noteq> 0"
  by (simp add: reply_consistent_def object_consistent_def str_rfind_def)

lemma analyze_consistent:
  "bedrock_analyze_email (Some invoke_consistent) loads_consistent fos c s f =
     \<lparr>ai_category = JStr ''technical'', ai_priority = JStr ''high'',
      ai_sentiment = JStr ''negative'', ai_intent = JStr ''support_request'',
      ai_confidence = 17 / 20, ai_keywords = JArr [], ai_requires_human = JBool True,
      ai_suggested_response = None, ai_ticket_needed = JBool True,
      ai_reasoning = JStr ''AI analysis completed''\<rparr>"
proof -
  have js: "slice reply_consistent (str_find reply_consistent CHR ''{'')
      (str_rfind reply_consistent CHR ''}'' + 1) = object_consistent"
    using json_str_of_reply_consistent by (simp add: json_str_of_def)
  have "parse_ai_analysis loads_consistent fos reply_consistent =
     \<lparr>ai_category = JStr ''technical'', ai_priority = JStr ''high'',
      ai_sentiment = JStr ''negative'', ai_intent = JStr ''support_request'',
      ai_confidence = 17 / 20, ai_keywords = JArr [], ai_requires_human = JBool True,
      ai_suggested_response = None, ai_ticket_needed = JBool True,
      ai_reasoning = JStr ''AI analysis completed''\<rparr>"
    unfolding parse_ai_analysis_def parse_ai_analysis_try_def Let_def js
    using rfind_reply_consistent
    by (simp add: find_reply_consistent loads_consistent_def dict_get_def)
  then show ?thesis
    by (simp add: bedrock_analyze_email_def call_bedrock_ai_def invoke_consistent_def)
qed

lemma consistent_reply_unique:
  assumes "Some invoke_consistent = Some invoke_model"
    and "invoke_model p = Inr reply"
    and "loads_consistent (json_str_of reply) = Some (JObj d)"
  shows "d = [(''category'', JStr ''technical''), (''priority'', JStr ''high''),
              (''sentiment'', JStr ''negative''), (''confidence'', JNum (17 / 20)),
              (''requires_human'', JBool True), (''ticket_needed'', JBool True)]"
proof -
  from assms(1,2) have "reply = reply_consistent" by (simp add: invoke_consistent_def)
  with assms(3) show ?thesis
    by (simp add: json_str_of_reply_consistent loads_consistent_def)
qed

subsection \<open>Confidence\<close>

text \<open>
  C3 (as stated, refuted): the inference variant stores \<open>float\<close> of the reply's
  "confidence" entry without clamping it. On a reply whose object carries confidence 1.5
  the Analysis has confidence 1.5, outside the closed interval from 0 to 1.
\<close>

theorem C3_confidence_counterexample:
  "\<not> ai_confidence (bedrock_analyze_email (Some invoke_unchecked) loads_unchecked no_float_of_str
        ''URGENT: production is down'' ''System outage'' ''customer@example.com'') \<le> 1"
  unfolding analyze_unchecked by simp

text \<open>
  C3 (amended): for every input message the Analysis of the rule variant has confidence
  in the closed interval from 0 to 1. The Analysis of the inference variant has confidence
  in that interval provided the "confidence" entry of the JSON object decoded from the
  service's reply, read with default 0.7 and converted by \<open>float\<close>, lies in it; the variant
  itself does not clamp the value. (When no object is decoded the fallback's 0.5 is
  returned.)
\<close>

theorem C3_confidence_in_unit_interval:
  assumes "\<And>invoke_model reply d r.
      b = Some invoke_model \<Longrightarrow> invoke_model (create_analysis_prompt c s f) = Inr reply \<Longrightarrow>
      json_loads (json_str_of reply) = Some (JObj d) \<Longrightarrow>
      py_float fos (dict_get d ''confidence'' (JNum (7 / 10))) = Inr r \<Longrightarrow> 0 \<le> r \<and> r \<le> 1"
  shows "0 \<le> confidence (analyze_email list_set c s f)
       \<and> confidence (analyze_email list_set c s f) \<le> 1
       \<and> 0 \<le> ai_confidence (bedrock_analyze_email b json_loads fos c s f)
       \<and> ai_confidence (bedrock_analyze_email b json_loads fos c s f) \<le> 1"
proof -
  have rule: "0 \<le> confidence (analyze_email list_set c s f)
      \<and> confidence (analyze_email list_set c s f) \<le> 1"
    using calculate_confidence_bounds
      [of "categorize_email (lower (s @ '' '' @ c))" "determine_priority (lower (s @ '' '' @ c))"
          "analyze_sentiment (lower (s @ '' '' @ c))"]
    by (simp add: analyze_email_fields)
  have ai: "0 \<le> ai_confidence (bedrock_analyze_email b json_loads fos c s f)
      \<and> ai_confidence (bedrock_analyze_email b json_loads fos c s f) \<le> 1"
    using bedrock_analyze_email_shape [of b json_loads fos c s f]
  proof
    assume "bedrock_analyze_email b json_loads fos c s f = fallback_analysis [] []"
    then show ?thesis by (simp add: fallback_analysis_def)
  next
    assume "\<exists>invoke_model reply d r. b = Some invoke_model
          \<and> invoke_model (create_analysis_prompt c s f) = Inr reply
          \<and> json_loads (json_str_of reply) = Some (JObj d)
          \<and> py_float fos (dict_get d ''confidence'' (JNum (7 / 10))) = Inr r
          \<and> bedrock_analyze_email b json_loads fos c s f =
              \<lparr>ai_category = dict_get d ''category'' (JStr ''general''),
               ai_priority = dict_get d ''priority'' (JStr ''medium''),
               ai_sentiment = dict_get d ''sentiment'' (JStr ''neutral''),
               ai_intent = dict_get d ''intent'' (JStr ''support_request''),
               ai_confidence = r,
               ai_keywords = dict_get d ''keywords'' (JArr []),
               ai_requires_human = dict_get d ''requires_human'' (JBool False),
               ai_suggested_response = None,
               ai_ticket_needed = dict_get d ''ticket_needed'' (JBool True),
               ai_reasoning = dict_get d ''reasoning'' (JStr ''AI analysis completed'')\<rparr>"
    then obtain invoke_model reply d r where
      "b = Some invoke_model" "invoke_model (create_analysis_prompt c s f) = Inr reply"
      "json_loads (json_str_of reply) = Some (JObj d)"
      "py_float fos (dict_get d ''confidence'' (JNum (7 / 10))) = Inr r"
      and conf: "ai_confidence (bedrock_analyze_email b json_loads fos c s f) = r"
      by auto
    with assms show ?thesis by metis
  qed
  from rule ai show ?thesis by simp
qed

theorem C3_confidence_in_unit_interval_witness:
  "0 \<le> confidence (analyze_email remdups ''URGENT: production is down'' ''System outage''
        ''customer@example.com'')
   \<and> confidence (analyze_email remdups ''URGENT: production is down'' ''System outage''
        ''customer@example.com'') \<le> 1
   \<and> 0 \<le> ai_confidence (bedrock_analyze_email (Some invoke_consistent) loads_consistent
        no_float_of_str ''URGENT: production is down'' ''System outage'' ''customer@example.com'')
   \<and> ai_confidence (bedrock_analyze_email (Some invoke_consistent) loads_consistent
        no_float_of_str ''URGENT: production is down'' ''System outage'' ''customer@example.com'') \<le> 1
   \<and> ai_confidence (bedrock_analyze_email (Some invoke_consistent) loads_consistent
        no_float_of_str ''URGENT: production is down'' ''System outage'' ''customer@example.com'')
      = 17 / 20"
proof -
  have h: "\<And>invoke_model reply d r.
      Some invoke_consistent = Some invoke_model \<Longrightarrow>
      invoke_model (create_analysis_prompt ''URGENT: production is down'' ''System outage''
        ''customer@example.com'') = Inr reply \<Longrightarrow>
      loads_consistent (json_str_of reply) = Some (JObj d) \<Longrightarrow>
      py_float no_float_of_str (dict_get d ''confidence'' (JNum (7 / 10))) = Inr r \<Longrightarrow>
      0 \<le> r \<and> r \<le> 1"
  proof -
    fix invoke_model reply d r
    assume a: "Some invoke_consistent = Some invoke_model"
      "invoke_model (create_analysis_prompt ''URGENT: production is down'' ''System outage''
        ''customer@example.com'') = Inr reply"
      "loads_consistent (json_str_of reply) = Some (JObj d)"
      and r: "py_float no_float_of_str (dict_get d ''confidence'' (JNum (7 / 10))) = Inr r"
    from consistent_reply_unique [OF a] r show "0 \<le> r \<and> r \<le> 1"
      by (auto simp: dict_get_def)
  qed
  from C3_confidence_in_unit_interval
    [where b = "Some invoke_consistent" and json_loads = loads_consistent
       and fos = no_float_of_str and c = "''URGENT: production is down''"
       and s = "''System outage''" and f = "''customer@example.com''"
       and list_set = remdups, OF h]
  show ?thesis
    by (simp add: analyze_consistent)
qed

subsection \<open>Ticket needed\<close>

text \<open>
  C4 (as stated, refuted): the inference variant copies "ticket\_needed" from the reply
  and applies no rule to it. On a reply whose object has priority "high" and
  ticket\_needed false, the Analysis has priority "high" and ticket\_needed false.
\<close>

theorem C4_ticket_needed_counterexample:
  "ai_priority (bedrock_analyze_email (Some invoke_unchecked) loads_unchecked no_float_of_str
      ''URGENT: production is down'' ''System outage'' ''customer@example.com'') = JStr ''high''
   \<and> ai_ticket_needed (bedrock_analyze_email (Some invoke_unchecked) loads_unchecked
      no_float_of_str ''URGENT: production is down'' ''System outage'' ''customer@example.com'')
      = JBool False"
  unfolding analyze_unchecked by simp

text \<open>
  C4 (amended): for every Analysis produced by the rule variant, ticket\_needed is true
  whenever priority equals "high" or category is "technical" or "complaint". The inference
  variant takes ticket\_needed from the JSON object decoded from the service's reply (true
  when the key is absent) and enforces nothing; its Analysis satisfies the same rule
  provided that object does. (When no object is decoded the fallback, with ticket\_needed
  true, is returned.)
\<close>

theorem C4_ticket_needed_policy:
  assumes "\<And>invoke_model reply d.
      b = Some invoke_model \<Longrightarrow> invoke_model (create_analysis_prompt c s f) = Inr reply \<Longrightarrow>
      json_loads (json_str_of reply) = Some (JObj d) \<Longrightarrow>
      dict_get d ''priority'' (JStr ''medium'') = JStr ''high''
        \<or> dict_get d ''category'' (JStr ''general'') = JStr ''technical''
        \<or> dict_get d ''category'' (JStr ''general'') = JStr ''complaint'' \<Longrightarrow>
      dict_get d ''ticket_needed'' (JBool True) = JBool True"
  shows "(priority (analyze_email list_set c s f) = ''high''
          \<or> category (analyze_email list_set c s f) = ''technical''
          \<or> category (analyze_email list_set c s f) = ''complaint''
          \<longrightarrow> ticket_needed (analyze_email list_set c s f))
       \<and> (ai_priority (bedrock_analyze_email b json_loads fos c s f) = JStr ''high''
          \<or> ai_category (bedrock_analyze_email b json_loads fos c s f) = JStr ''technical''
          \<or> ai_category (bedrock_analyze_email b json_loads fos c s f) = JStr ''complaint''
          \<longrightarrow> ai_ticket_needed (bedrock_analyze_email b json_loads fos c s f) = JBool True)"
proof -
  have rule: "priority (analyze_email list_set c s f) = ''high''
          \<or> category (analyze_email list_set c s f) = ''technical''
          \<or> category (analyze_email list_set c s f) = ''complaint''
          \<longrightarrow> ticket_needed (analyze_email list_set c s f)"
    by (simp add: analyze_email_fields needs_ticket_def)
  have ai: "ai_priority (bedrock_analyze_email b json_loads fos c s f) = JStr ''high''
          \<or> ai_category (bedrock_analyze_email b json_loads fos c s f) = JStr ''technical''
          \<or> ai_category (bedrock_analyze_email b json_loads fos c s f) = JStr ''complaint''
          \<longrightarrow> ai_ticket_needed (bedrock_analyze_email b json_loads fos c s f) = JBool True"
    using bedrock_analyze_email_shape [of b json_loads fos c s f]
  proof
    assume "bedrock_analyze_email b json_loads fos c s f = fallback_analysis [] []"
    then show ?thesis by (simp add: fallback_analysis_def)
  next
    assume "\<exists>invoke_model reply d r. b = Some invoke_model
          \<and> invoke_model (create_analysis_prompt c s f) = Inr reply
          \<and> json_loads (json_str_of reply) = Some (JObj d)
          \<and> py_float fos (dict_get d ''confidence'' (JNum (7 / 10))) = Inr r
          \<and> bedrock_analyze_email b json_loads fos c s f =
              \<lparr>ai_category = dict_get d ''category'' (JStr ''general''),
               ai_priority = dict_get d ''priority'' (JStr ''medium''),
               ai_sentiment = dict_get d ''sentiment'' (JStr ''neutral''),
               ai_intent = dict_get d ''intent'' (JStr ''support_request''),
               ai_confidence = r,
               ai_keywords = dict_get d ''keywords'' (JArr []),
               ai_requires_human = dict_get d ''requires_human'' (JBool False),
               ai_suggested_response = None,
               ai_ticket_needed = dict_get d ''ticket_needed'' (JBool True),
               ai_reasoning = dict_get d ''reasoning'' (JStr ''AI analysis completed'')\<rparr>"
    then obtain invoke_model reply d where
      src: "b = Some invoke_model" "invoke_model (create_analysis_prompt c s f) = Inr reply"
        "json_loads (json_str_of reply) = Some (JObj d)"
      and res: "ai_priority (bedrock_analyze_email b json_loads fos c s f)
          = dict_get d ''priority'' (JStr ''medium'')"
        "ai_category (bedrock_analyze_email b json_loads fos c s f)
          = dict_get d ''category'' (JStr ''general'')"
        "ai_ticket_needed (bedrock_analyze_email b json_loads fos c s f)
          = dict_get d ''ticket_needed'' (JBool True)"
      by auto
    from assms [OF src] show ?thesis unfolding res by blast
  qed
  from rule ai show ?thesis by simp
qed

theorem C4_ticket_needed_policy_witness:
  "priority (analyze_email remdups ''URGENT: production is down'' ''System outage''
      ''customer@example.com'') = ''high''
   \<and> ticket_needed (analyze_email remdups ''URGENT: production is down'' ''System outage''
      ''customer@example.com'')
   \<and> ai_priority (bedrock_analyze_email (Some invoke_consistent) loads_consistent
      no_float_of_str ''URGENT: production is down'' ''System outage'' ''customer@example.com'')
      = JStr ''high''
   \<and> ai_ticket_needed (bedrock_analyze_email (Some invoke_consistent) loads_consistent
      no_float_of_str ''URGENT: production is down'' ''System outage'' ''customer@example.com'')
      = JBool True"
proof -
  have h: "\<And>invoke_model reply d.
      Some invoke_consistent = Some invoke_model \<Longrightarrow>
      invoke_model (create_analysis_prompt ''URGENT: production is down'' ''System outage''
        ''customer@example.com'') = Inr reply \<Longrightarrow>
      loads_consistent (json_str_of reply) = Some (JObj d) \<Longrightarrow>
      dict_get d ''priority'' (JStr ''medium'') = JStr ''high''
        \<or> dict_get d ''category'' (JStr ''general'') = JStr ''technical''
        \<or> dict_get d ''category'' (JStr ''general'') = JStr ''complaint'' \<Longrightarrow>
      dict_get d ''ticket_needed'' (JBool True) = JBool True"
  proof -
    fix invoke_model reply d
    assume a: "Some invoke_consistent = Some invoke_model"
      "invoke_model (create_analysis_prompt ''URGENT: production is down'' ''System outage''
        ''customer@example.com'') = Inr reply"
      "loads_consistent (json_str_of reply) = Some (JObj d)"
    from consistent_reply_unique [OF a]
    show "dict_get d ''ticket_needed'' (JBool True) = JBool True"
      by (simp add: dict_get_def)
  qed
  have p: "priority (analyze_email remdups ''URGENT: production is down'' ''System outage''
      ''customer@example.com'') = ''high''"
    unfolding scenario_A_fields by simp
  have q: "ai_priority (bedrock_analyze_email (Some invoke_consistent) loads_consistent
      no_float_of_str ''URGENT: production is down'' ''System outage'' ''customer@example.com'')
      = JStr ''high''"
    by (simp add: analyze_consistent)
  from C4_ticket_needed_policy
    [where b = "Some invoke_consistent" and json_loads = loads_consistent
       and fos = no_float_of_str and c = "''URGENT: production is down''"
       and s = "''System outage''" and f = "''customer@example.com''"
       and list_set = remdups, OF h]
    p q
  show ?thesis by simp
qed

subsection \<open>Requires human\<close>

text \<open>
  C5 (as stated, refuted): the inference variant copies "requires\_human" from the reply
  (false when the key is absent) and applies no rule to it. On a reply whose object has
  priority "high" and requires\_human false, the Analysis has priority "high" and
  requires\_human false.
\<close>

theorem C5_requires_human_counterexample:
  "ai_priority (bedrock_analyze_email (Some invoke_unchecked) loads_unchecked no_float_of_str
      ''URGENT: production is down'' ''System outage'' ''customer@example.com'') = JStr ''high''
   \<and> ai_requires_human (bedrock_analyze_email (Some invoke_unchecked) loads_unchecked
      no_float_of_str ''URGENT: production is down'' ''System outage'' ''customer@example.com'')
      = JBool False"
  unfolding analyze_unchecked by simp

text \<open>
  C5 (amended): for every Analysis produced by the rule variant, requires\_human is true
  whenever priority equals "high", or sentiment equals "negative", or category is
  "complaint" or "billing". The inference variant takes requires\_human from the JSON
  object decoded from the service's reply (false when the key is absent) and enforces
  nothing; its Analysis satisfies the same rule provided that object does. (When no object
  is decoded the fallback, with requires\_human true, is returned.)
\<close>

theorem C5_requires_human_policy:
  assumes "\<And>invoke_model reply d.
      b = Some invoke_model \<Longrightarrow> invoke_model (create_analysis_prompt c s f) = Inr reply \<Longrightarrow>
      json_loads (json_str_of reply) = Some (JObj d) \<Longrightarrow>
      dict_get d ''priority'' (JStr ''medium'') = JStr ''high''
        \<or> dict_get d ''sentiment'' (JStr ''neutral'') = JStr ''negative''
        \<or> dict_get d ''category'' (JStr ''general'') = JStr ''complaint''
        \<or> dict_get d ''category'' (JStr ''general'') = JStr ''billing'' \<Longrightarrow>
      dict_get d ''requires_human'' (JBool False) = JBool True"
  shows "(priority (analyze_email list_set c s f) = ''high''
          \<or> sentiment (analyze_email list_set c s f) = ''negative''
          \<or> category (analyze_email list_set c s f) = ''complaint''
          \<or> category (analyze_email list_set c s f) = ''billing''
          \<longrightarrow> requires_human (analyze_email list_set c s f))
       \<and> (ai_priority (bedrock_analyze_email b json_loads fos c s f) = JStr ''high''
          \<or> ai_sentiment (bedrock_analyze_email b json_loads fos c s f) = JStr ''negative''
          \<or> ai_category (bedrock_analyze_email b json_loads fos c s f) = JStr ''complaint''
          \<or> ai_category (bedrock_analyze_email b json_loads fos c s f) = JStr ''billing''
          \<longrightarrow> ai_requires_human (bedrock_analyze_email b json_loads fos c s f) = JBool True)"
proof -
  have rule: "priority (analyze_email list_set c s f) = ''high''
          \<or> sentiment (analyze_email list_set c s f) = ''negative''
          \<or> category (analyze_email list_set c s f) = ''complaint''
          \<or> category (analyze_email list_set c s f) = ''billing''
          \<longrightarrow> requires_human (analyze_email list_set c s f)"
    by (simp add: analyze_email_fields requires_human_review_def)
  have ai: "ai_priority (bedrock_analyze_email b json_loads fos c s f) = JStr ''high''
          \<or> ai_sentiment (bedrock_analyze_email b json_loads fos c s f) = JStr ''negative''
          \<or> ai_category (bedrock_analyze_email b json_loads fos c s f) = JStr ''complaint''
          \<or> ai_category (bedrock_analyze_email b json_loads fos c s f) = JStr ''billing''
          \<longrightarrow> ai_requires_human (bedrock_analyze_email b json_loads fos c s f) = JBool True"
    using bedrock_analyze_email_shape [of b json_loads fos c s f]
  proof
    assume "bedrock_analyze_email b json_loads fos c s f = fallback_analysis [] []"
    then show ?thesis by (simp add: fallback_analysis_def)
  next
    assume "\<exists>invoke_model reply d r. b = Some invoke_model
          \<and> invoke_model (create_analysis_prompt c s f) = Inr reply
          \<and> json_loads (json_str_of reply) = Some (JObj d)
          \<and> py_float fos (dict_get d ''confidence'' (JNum (7 / 10))) = Inr r
          \<and> bedrock_analyze_email b json_loads fos c s f =
              \<lparr>ai_category = dict_get d ''category'' (JStr ''general''),
               ai_priority = dict_get d ''priority'' (JStr ''medium''),
               ai_sentiment = dict_get d ''sentiment'' (JStr ''neutral''),
               ai_intent = dict_get d ''intent'' (JStr ''support_request''),
               ai_confidence = r,
               ai_keywords = dict_get d ''keywords'' (JArr []),
               ai_requires_human = dict_get d ''requires_human'' (JBool False),
               ai_suggested_response = None,
               ai_ticket_needed = dict_get d ''ticket_needed'' (JBool True),
               ai_reasoning = dict_get d ''reasoning'' (JStr ''AI analysis completed'')\<rparr>"
    then obtain invoke_model reply d where
      src: "b = Some invoke_model" "invoke_model (create_analysis_prompt c s f) = Inr reply"
        "json_loads (json_str_of reply) = Some (JObj d)"
      and res: "ai_priority (bedrock_analyze_email b json_loads fos c s f)
          = dict_get d ''priority'' (JStr ''medium'')"
        "ai_sentiment (bedrock_analyze_email b json_loads fos c s f)
          = dict_get d ''sentiment'' (JStr ''neutral'')"
        "ai_category (bedrock_analyze_email b json_loads fos c s f)
          = dict_get d ''category'' (JStr ''general'')"
        "ai_requires_human (bedrock_analyze_email b json_loads fos c s f)
          = dict_get d ''requires_human'' (JBool False)"
      by auto
    from assms [OF src] show ?thesis unfolding res by blast
  qed
  from rule ai show ?thesis by simp
qed

theorem C5_requires_human_policy_witness:
  "priority (analyze_email remdups ''URGENT: production is down'' ''System outage''
      ''customer@example.com'') = ''high''
   \<and> requires_human (analyze_email remdups ''URGENT: production is down'' ''System outage''
      ''customer@example.com'')
   \<and> ai_sentiment (bedrock_analyze_email (Some invoke_consistent) loads_consistent
      no_float_of_str ''URGENT: production is down'' ''System outage'' ''customer@example.com'')
      = JStr ''negative''
   \<and> ai_requires_human (bedrock_analyze_email (Some invoke_consistent) loads_consistent
      no_float_of_str ''URGENT: production is down'' ''System outage'' ''customer@example.com'')
      = JBool True"
proof -
  have h: "\<And>invoke_model reply d.
      Some invoke_consistent = Some invoke_model \<Longrightarrow>
      invoke_model (create_analysis_prompt ''URGENT: production is down'' ''System outage''
        ''customer@example.com'') = Inr reply \<Longrightarrow>
      loads_consistent (json_str_of reply) = Some (JObj d) \<Longrightarrow>
      dict_get d ''priority'' (JStr ''medium'') = JStr ''high''
        \<or> dict_get d ''sentiment'' (JStr ''neutral'') = JStr ''negative''
        \<or> dict_get d ''category'' (JStr ''general'') = JStr ''complaint''
        \<or> dict_get d ''category'' (JStr ''general'') = JStr ''billing'' \<Longrightarrow>
      dict_get d ''requires_human'' (JBool False) = JBool True"
  proof -
    fix invoke_model reply d
    assume a: "Some invoke_consistent = Some invoke_model"
      "invoke_model (create_analysis_prompt ''URGENT: production is down'' ''System outage''
        ''customer@example.com'') = Inr reply"
      "loads_consistent (json_str_of reply) = Some (JObj d)"
    from consistent_reply_unique [OF a]
    show "dict_get d ''requires_human'' (JBool False) = JBool True"
      by (simp add: dict_get_def)
  qed
  have p: "priority (analyze_email remdups ''URGENT: production is down'' ''System outage''
      ''customer@example.com'') = ''high''"
    unfolding scenario_A_fields by simp
  have q: "ai_sentiment (bedrock_analyze_email (Some invoke_consistent) loads_consistent
      no_float_of_str ''URGENT: production is down'' ''System outage'' ''customer@example.com'')
      = JStr ''negative''"
    by (simp add: analyze_consistent)
  from C5_requires_human_policy
    [where b = "Some invoke_consistent" and json_loads = loads_consistent
       and fos = no_float_of_str and c = "''URGENT: production is down''"
       and s = "''System outage''" and f = "''customer@example.com''"
       and list_set = remdups, OF h]
    p q
  show ?thesis by simp
qed

subsection \<open>The fail-safe analysis\<close>

lemma parse_ai_analysis_try_undecodable:
  "json_loads (json_str_of reply) = None \<Longrightarrow> \<exists>e. parse_ai_analysis_try json_loads fos reply = Inl e"
  by (simp add: parse_ai_analysis_try_def json_str_of_def Let_def)

lemma bedrock_analyze_email_failure:
  assumes "b = None
     \<or> (\<exists>invoke_model e. b = Some invoke_model
           \<and> invoke_model (create_analysis_prompt c s f) = Inl e)
     \<or> (\<exists>invoke_model reply e. b = Some invoke_model
           \<and> invoke_model (create_analysis_prompt c s f) = Inr reply
           \<and> parse_ai_analysis_try json_loads fos reply = Inl e)"
  shows "bedrock_analyze_email b json_loads fos c s f = fallback_analysis [] []"
  using assms
  by (auto simp: bedrock_analyze_email_def call_bedrock_ai_def parse_ai_analysis_def
      fallback_analysis_def)

text \<open>
  C6: \<open>analyze_email\<close> returns an Analysis on every input. In the inference variant
  each internal failure (no client, the service call raising, the \<open>try\<close> block of the
  parser raising, in particular a reply that \<open>json.loads\<close> cannot decode) yields the
  fixed fail-safe Analysis: category general, priority medium, sentiment neutral, confidence
  0.5, requires\_human true, ticket\_needed true. In the rule variant the \<open>try\<close> block has
  no failing step on strings, and the \<open>except\<close> branch holds the same fail-safe values.
\<close>

theorem C6_analyze_fail_safe:
  assumes "b = None
     \<or> (\<exists>invoke_model e. b = Some invoke_model
           \<and> invoke_model (create_analysis_prompt c s f) = Inl e)
     \<or> (\<exists>invoke_model reply e. b = Some invoke_model
           \<and> invoke_model (create_analysis_prompt c s f) = Inr reply
           \<and> parse_ai_analysis_try json_loads fos reply = Inl e)
     \<or> (\<exists>invoke_model reply. b = Some invoke_model
           \<and> invoke_model (create_analysis_prompt c s f) = Inr reply
           \<and> json_loads (json_str_of reply) = None)"
  shows "bedrock_analyze_email b json_loads fos c s f =
           \<lparr>ai_category = JStr ''general'', ai_priority = JStr ''medium'',
            ai_sentiment = JStr ''neutral'', ai_intent = JStr ''support_request'',
            ai_confidence = 1 / 2, ai_keywords = JArr [], ai_requires_human = JBool True,
            ai_suggested_response = None, ai_ticket_needed = JBool True,
            ai_reasoning = JStr ''Fallback analysis - AI unavailable''\<rparr>
       \<and> (\<exists>a. analyze_email_try list_set c s f = Inr a \<and> analyze_email list_set c s f = a)
       \<and> category safe_defaults = ''general'' \<and> priority safe_defaults = ''medium''
       \<and> sentiment safe_defaults = ''neutral'' \<and> confidence safe_defaults = 1 / 2
       \<and> requires_human safe_defaults \<and> ticket_needed safe_defaults"
proof -
  from assms parse_ai_analysis_try_undecodable [of json_loads _ fos]
  have "b = None
     \<or> (\<exists>invoke_model e. b = Some invoke_model
           \<and> invoke_model (create_analysis_prompt c s f) = Inl e)
     \<or> (\<exists>invoke_model reply e. b = Some invoke_model
           \<and> invoke_model (create_analysis_prompt c s f) = Inr reply
           \<and> parse_ai_analysis_try json_loads fos reply = Inl e)"
    by blast
  then have "bedrock_analyze_email b json_loads fos c s f = fallback_analysis [] []"
    by (rule bedrock_analyze_email_failure)
  moreover have "\<exists>a. analyze_email_try list_set c s f = Inr a \<and> analyze_email list_set c s f = a"
    by (simp add: analyze_email_def analyze_email_try_def Let_def)
  ultimately show ?thesis
    by (simp add: fallback_analysis_def safe_defaults_def)
qed

theorem C6_analyze_fail_safe_witness:
  "bedrock_analyze_email None loads_consistent no_float_of_str
      ''URGENT: production is down'' ''System outage'' ''customer@example.com''
     = fallback_analysis ''URGENT: production is down'' ''System outage''
   \<and> bedrock_analyze_email (Some invoke_raises) loads_consistent no_float_of_str
      ''URGENT: production is down'' ''System outage'' ''customer@example.com''
     = fallback_analysis ''URGENT: production is down'' ''System outage''
   \<and> bedrock_analyze_email (Some invoke_garbled) loads_consistent no_float_of_str
      ''URGENT: production is down'' ''System outage'' ''customer@example.com''
     = fallback_analysis ''URGENT: production is down'' ''System outage''
   \<and> bedrock_analyze_email (Some invoke_undecodable) loads_consistent no_float_of_str
      ''URGENT: production is down'' ''System outage'' ''customer@example.com''
     = fallback_analysis ''URGENT: production is down'' ''System outage''"
proof -
  let ?c = "''URGENT: production is down''" and ?s = "''System outage''"
    and ?f = "''customer@example.com''"
  have h1: "(None :: bedrock_client) = None
     \<or> (\<exists>invoke_model e. (None :: bedrock_client) = Some invoke_model
           \<and> invoke_model (create_analysis_prompt ?c ?s ?f) = Inl e)
     \<or> (\<exists>invoke_model reply e. (None :: bedrock_client) = Some invoke_model
           \<and> invoke_model (create_analysis_prompt ?c ?s ?f) = Inr reply
           \<and> parse_ai_analysis_try loads_consistent no_float_of_str reply = Inl e)
     \<or> (\<exists>invoke_model reply. (None :: bedrock_client) = Some invoke_model
           \<and> invoke_model (create_analysis_prompt ?c ?s ?f) = Inr reply
           \<and> loads_consistent (json_str_of reply) = None)"
    by simp
  have h2: "Some invoke_raises = None
     \<or> (\<exists>invoke_model e. Some invoke_raises = Some invoke_model
           \<and> invoke_model (create_analysis_prompt ?c ?s ?f) = Inl e)
     \<or> (\<exists>invoke_model reply e. Some invoke_raises = Some invoke_model
           \<and> invoke_model (create_analysis_prompt ?c ?s ?f) = Inr reply
           \<and> parse_ai_analysis_try loads_consistent no_float_of_str reply = Inl e)
     \<or> (\<exists>invoke_model reply. Some invoke_raises = Some invoke_model
           \<and> invoke_model (create_analysis_prompt ?c ?s ?f) = Inr reply
           \<and> loads_consistent (json_str_of reply) = None)"
    by (simp add: invoke_raises_def)
  have g: "parse_ai_analysis_try loads_consistent no_float_of_str ''{category: technical''
      = Inl (ValueError ''No JSON found in AI response'')"
    by (simp add: parse_ai_analysis_try_def str_find_def str_rfind_def)
  have h3: "Some invoke_garbled = None
     \<or> (\<exists>invoke_model e. Some invoke_garbled = Some invoke_model
           \<and> invoke_model (create_analysis_prompt ?c ?s ?f) = Inl e)
     \<or> (\<exists>invoke_model reply e. Some invoke_garbled = Some invoke_model
           \<and> invoke_model (create_analysis_prompt ?c ?s ?f) = Inr reply
           \<and> parse_ai_analysis_try loads_consistent no_float_of_str reply = Inl e)
     \<or> (\<exists>invoke_model reply. Some invoke_garbled = Some invoke_model
           \<and> invoke_model (create_analysis_prompt ?c ?s ?f) = Inr reply
           \<and> loads_consistent (json_str_of reply) = None)"
    using g by (simp add: invoke_garbled_def)
  have u: "loads_consistent (json_str_of ''{category: technical}'') = None"
    by (simp add: json_str_of_def str_find_def str_rfind_def slice_def slice_bound_def
        loads_consistent_def object_consistent_def)
  have h4: "Some invoke_undecodable = None
     \<or> (\<exists>invoke_model e. Some invoke_undecodable = Some invoke_model
           \<and> invoke_model (create_analysis_prompt ?c ?s ?f) = Inl e)
     \<or> (\<exists>invoke_model reply e. Some invoke_undecodable = Some invoke_model
           \<and> invoke_model (create_analysis_prompt ?c ?s ?f) = Inr reply
           \<and> parse_ai_analysis_try loads_consistent no_float_of_str reply = Inl e)
     \<or> (\<exists>invoke_model reply. Some invoke_undecodable = Some invoke_model
           \<and> invoke_model (create_analysis_prompt ?c ?s ?f) = Inr reply
           \<and> loads_consistent (json_str_of reply) = None)"
    using u by (simp add: invoke_undecodable_def)
  from C6_analyze_fail_safe [OF h1, where list_set = remdups]
    C6_analyze_fail_safe [OF h2, where list_set = remdups]
    C6_analyze_fail_safe [OF h3, where list_set = remdups]
    C6_analyze_fail_safe [OF h4, where list_set = remdups]
  show ?thesis
    by (simp add: fallback_analysis_def)
qed

section \<open>The knowledge matcher\<close>

lemma sorted_descending:
  "sorted_wrt (\<lambda>a b. score_key b \<le> score_key a) (sort_key (\<lambda>x. - score_key x) xs)"
proof -
  have "sorted (map (\<lambda>x. - score_key x) (sort_key (\<lambda>x. - score_key x) xs))"
    by (rule sorted_sort_key)
  then show ?thesis
    by (simp add: sorted_map sorted_wrt_iff_nth_less)
qed

text \<open>
  A category filter is given when \<open>if category_filter:\<close> holds, that is when it is a
  non-empty string; \<open>None\<close> and the empty string both mean that no filter is specified,
  and then every row of the store is returned.
\<close>

lemma search_empty_filter_unfiltered:
  "search embed_ok store_ok ''reset my password'' (4 / 5) 5 (Some [])
     = Inr [row_reset, row_two_factor, row_refund]"
  by (simp add: search_def embed_ok_def store_ok_def str_truthy_def score_key_def
      row_reset_def row_two_factor_def row_refund_def)

text \<open>
  C7: for every query, threshold, limit and optional category filter, when the embedding
  provider and the store answer, \<open>search\<close> returns a sequence that is sorted in
  non-increasing order of similarity\_score (an absent score counting as 0) and that, when a
  category filter is given (\<open>str_truthy\<close>, the guard \<open>if category_filter:\<close>), contains
  only candidates of that category: it holds exactly the store's rows passing the filter,
  and all the store's rows when no filter is given.
\<close>

theorem C7_search_sorted_filtered:
  assumes "create_embedding query = Inr v"
    and "search_knowledge_base v threshold limit = Inr results"
  shows "\<exists>out. search create_embedding search_knowledge_base query threshold limit category_filter
             = Inr out
          \<and> sorted_wrt (\<lambda>a b. score_key b \<le> score_key a) out
          \<and> (str_truthy category_filter \<longrightarrow> (\<forall>r \<in> set out. cand_category r = category_filter))
          \<and> set out = (if str_truthy category_filter
                        then {r \<in> set results. cand_category r = category_filter}
                        else set results)
          \<and> length out = (if str_truthy category_filter
                        then length (filter (\<lambda>r. cand_category r = category_filter) results)
                        else length results)"
  using assms by (auto simp: search_def Let_def sorted_descending)

theorem C7_search_sorted_filtered_witness:
  "search embed_ok store_ok ''reset my password'' (4 / 5) 5 (Some ''authentication'')
     = Inr [row_reset, row_two_factor]
   \<and> score_key row_two_factor \<le> score_key row_reset
   \<and> cand_category row_reset = Some ''authentication''
   \<and> cand_category row_two_factor = Some ''authentication''"
proof -
  have e: "embed_ok ''reset my password'' = Inr [1 / 10, 1 / 5]" by (simp add: embed_ok_def)
  have r: "store_ok [1 / 10, 1 / 5] (4 / 5) 5 = Inr [row_refund, row_two_factor, row_reset]"
    by (simp add: store_ok_def)
  from C7_search_sorted_filtered
    [where create_embedding = embed_ok and search_knowledge_base = store_ok
       and query = "''reset my password''" and threshold = "4 / 5" and limit = 5
       and category_filter = "Some ''authentication''", OF e r]
  obtain out where
    o: "search embed_ok store_ok ''reset my password'' (4 / 5) 5 (Some ''authentication'') = Inr out"
    by blast
  have "search embed_ok store_ok ''reset my password'' (4 / 5) 5 (Some ''authentication'')
     = Inr [row_reset, row_two_factor]"
    by (simp add: search_def embed_ok_def store_ok_def str_truthy_def score_key_def
        row_reset_def row_two_factor_def row_refund_def)
  with o show ?thesis
    by (simp add: score_key_def row_reset_def row_two_factor_def)
qed

section \<open>The automation loop\<close>

lemma log_error_frame [simp]:
  "processed_emails (log_error w m e) = processed_emails w"
  "support_tickets (log_error w m e) = support_tickets w"
  "support_interactions (log_error w m e) = support_interactions w"
  "sent_mail (log_error w m e) = sent_mail w"
  "read_ids (log_error w m e) = read_ids w"
  "uuid_calls (log_error w m e) = uuid_calls w"
  "error_log (log_error w m e) = error_log w @ [(m, e)]"
  by (simp_all add: log_error_def)

lemma create_support_ticket_frame [simp]:
  "processed_emails (fst (create_support_ticket c w email a)) = processed_emails w"
  "support_interactions (fst (create_support_ticket c w email a)) = support_interactions w"
  "sent_mail (fst (create_support_ticket c w email a)) = sent_mail w"
  "read_ids (fst (create_support_ticket c w email a)) = read_ids w"
  "uuid_calls (fst (create_support_ticket c w email a)) = Suc (uuid_calls w)"
  by (simp_all add: create_support_ticket_def Let_def split: sum.splits option.splits)

lemma log_email_sent_frame [simp]:
  "processed_emails (log_email_sent c w m r) = processed_emails w"
  "support_tickets (log_email_sent c w m r) = support_tickets w"
  "sent_mail (log_email_sent c w m r) = sent_mail w"
  "read_ids (log_email_sent c w m r) = read_ids w"
  "uuid_calls (log_email_sent c w m r) = Suc (uuid_calls w)"
  by (simp_all add: log_email_sent_def Let_def split: option.splits)

lemma send_automated_response_frame [simp]:
  "processed_emails (send_automated_response c w email resp a tid) = processed_emails w"
  "support_tickets (send_automated_response c w email resp a tid) = support_tickets w"
  "read_ids (send_automated_response c w email resp a tid) = read_ids w"
  by (simp_all add: send_automated_response_def split: sum.splits)

lemma send_automated_response_sent_mail:
  "sent_mail (send_automated_response c w email resp a tid)
     = sent_mail w @ outbox_accepts c email resp tid"
  by (simp add: send_automated_response_def outbox_accepts_def split: sum.splits)

lemma log_email_processing_frame [simp]:
  "processed_emails (log_email_processing c w email a tid) = processed_emails w"
  "support_tickets (log_email_processing c w email a tid) = support_tickets w"
  "sent_mail (log_email_processing c w email a tid) = sent_mail w"
  "read_ids (log_email_processing c w email a tid) = read_ids w"
  "uuid_calls (log_email_processing c w email a tid) = Suc (uuid_calls w)"
  by (simp_all add: log_email_processing_def Let_def split: sum.splits option.splits)

lemma ticket_step_frame [simp]:
  "processed_emails (fst (ticket_step c w email a)) = processed_emails w"
  "support_interactions (fst (ticket_step c w email a)) = support_interactions w"
  "sent_mail (fst (ticket_step c w email a)) = sent_mail w"
  "read_ids (fst (ticket_step c w email a)) = read_ids w"
  by (simp_all add: ticket_step_def)

lemma reply_step_frame [simp]:
  "processed_emails (reply_step c w email subject body a kb tid) = processed_emails w"
  "support_tickets (reply_step c w email subject body a kb tid) = support_tickets w"
  "read_ids (reply_step c w email subject body a kb tid) = read_ids w"
  by (simp_all add: reply_step_def)

lemma process_steps_processed [simp]:
  "processed_emails (process_steps c w email subject body a kb) = processed_emails w"
  by (simp add: process_steps_def Let_def)

lemma process_single_email_processed [simp]:
  "processed_emails (snd (process_single_email c w email)) = processed_emails w"
  by (simp add: process_single_email_def Let_def split: sum.splits)

lemma process_single_email_returns:
  "fst (process_single_email c w email) = None \<longleftrightarrow> well_formed email"
  by (auto simp: process_single_email_def well_formed_def email_key_def Let_def
      split: sum.splits option.splits)

lemma mark_email_as_read_processed [simp]:
  "processed_emails (mark_email_as_read c w i) = processed_emails w"
  by (simp add: mark_email_as_read_def split: option.splits)

lemma process_new_emails_processed:
  "processed_emails (process_new_emails c w emails)
     = processed_emails w \<union> set (map (\<lambda>email. email ''id'') (filter well_formed emails))"
proof (induction emails arbitrary: w)
  case Nil
  then show ?case by simp
next
  case (Cons email emails)
  show ?case
  proof (cases "email ''id'' \<in> processed_emails w")
    case True
    then show ?thesis using Cons.IH [of w] by auto
  next
    case False
    obtain r w1 where p: "process_single_email c w email = (r, w1)" by (cases "process_single_email c w email")
    have w1: "processed_emails w1 = processed_emails w"
      using process_single_email_processed [of c w email] p by simp
    have r: "r = None \<longleftrightarrow> well_formed email"
      using process_single_email_returns [of c w email] p by simp
    show ?thesis
    proof (cases r)
      case None
      with False p r w1 show ?thesis
        by (simp add: Cons.IH Let_def)
    next
      case (Some e)
      with False p r w1 show ?thesis
        by (simp add: Cons.IH Let_def)
    qed
  qed
qed

lemma log_email_sent_error_log:
  "set (error_log w) \<subseteq> set (error_log (log_email_sent c w m r))"
  by (auto simp: log_email_sent_def Let_def split: option.splits)

lemma send_automated_response_error_log:
  "set (error_log w) \<subseteq> set (error_log (send_automated_response c w email resp a tid))"
proof (cases "build_email_data email resp tid")
  case (Inl e)
  then show ?thesis by (auto simp: send_automated_response_def)
next
  case (Inr m)
  show ?thesis
  proof (cases "send_email c m")
    case (Inl e)
    with Inr show ?thesis by (auto simp: send_automated_response_def)
  next
    case (Inr r)
    with \<open>build_email_data email resp tid = Inr m\<close>
      log_email_sent_error_log [of "w\<lparr>sent_mail := sent_mail w @ [m]\<rparr>" c m r]
    show ?thesis by (simp add: send_automated_response_def)
  qed
qed

lemma reply_step_error_log:
  "set (error_log w) \<subseteq> set (error_log (reply_step c w email subject body a kb tid))"
  using send_automated_response_error_log by (auto simp: reply_step_def)

lemma log_email_processing_error_log:
  "set (error_log w) \<subseteq> set (error_log (log_email_processing c w email a tid))"
  by (auto simp: log_email_processing_def Let_def split: sum.splits option.splits)

lemma reply_step_sent_mail:
  "sent_mail (reply_step c w email subject body a kb tid)
     = sent_mail w @ (if reply_gate a kb
                      then outbox_accepts c email
                             (generate_response (bedrock c) (py_repr_c c) a body subject kb) tid
                      else [])"
  by (simp add: reply_step_def send_automated_response_sent_mail)

lemma process_steps_sent_mail:
  "sent_mail (process_steps c w email subject body a kb)
     = sent_mail w @ (if reply_gate a kb
                      then outbox_accepts c email
                             (generate_response (bedrock c) (py_repr_c c) a body subject kb)
                             (snd (ticket_step c w email a))
                      else [])"
  by (simp add: process_steps_def Let_def reply_step_sent_mail)

lemma process_single_email_steps:
  assumes "email ''subject'' = Some subject" "email ''sender'' = Some sender"
    "email ''body'' = Some body"
  shows "process_single_email c w email =
     (None, process_steps c w email subject body
        (bedrock_analyze_email (bedrock c) (json_loads_c c) (float_of_str_c c) body subject sender)
        (search_knowledge_base_ai (bedrock c) (subject @ '' '' @ body)))"
  using assms by (simp add: process_single_email_def email_key_def Let_def)

lemma build_email_data_keys:
  assumes "email ''subject'' = Some subject" "email ''sender'' = Some sender"
    "email ''thread_id'' = Some thread"
  shows "build_email_data email response None =
           Inr \<lparr>ed_to = extract_email_address sender, ed_subject = ''Re: '' @ subject,
                ed_body = response, ed_thread_id = thread\<rparr>"
    and "tid \<noteq> [] \<Longrightarrow> build_email_data email response (Some tid) =
           Inr \<lparr>ed_to = extract_email_address sender, ed_subject = ''Re: '' @ subject,
                ed_body = response @ ''\<newline>\<newline>Ticket Reference: #'' @ take 8 tid,
                ed_thread_id = thread\<rparr>"
  using assms by (simp_all add: build_email_data_def email_key_def)

lemma create_support_ticket_raises:
  assumes "\<And>t. insert_ticket c t \<noteq> None"
  shows "snd (create_support_ticket c w email a) = None
    \<and> support_tickets (fst (create_support_ticket c w email a)) = support_tickets w
    \<and> (\<exists>e. error_log (fst (create_support_ticket c w email a))
           = error_log w @ [(''Failed to create support ticket'', e)])"
proof (cases "build_ticket_data c (uuid4 c (uuid_calls w)) email a")
  case (Inl e)
  then show ?thesis by (simp add: create_support_ticket_def Let_def)
next
  case (Inr ticket)
  from assms [of ticket] obtain e where "insert_ticket c ticket = Some e" by auto
  with Inr show ?thesis by (simp add: create_support_ticket_def Let_def)
qed

lemma log_email_processing_appends:
  assumes "email ''id'' = Some eid" "email ''sender'' = Some sender"
    "email ''subject'' = Some subject" "email ''thread_id'' = Some thread"
    and "\<And>row. insert_interaction c (EmailProcessed row) = None"
  shows "support_interactions (log_email_processing c w email a tid) =
           support_interactions w @
           [EmailProcessed
              \<lparr>pl_id = uuid4 c (uuid_calls w), pl_email_id = eid,
               pl_sender_email = extract_email_address sender, pl_subject = subject,
               pl_category = ai_category a, pl_priority = ai_priority a,
               pl_sentiment = ai_sentiment a, pl_confidence = ai_confidence a,
               pl_ticket_created = (tid \<noteq> None), pl_ticket_id = tid,
               pl_requires_human = ai_requires_human a, pl_created_at = utcnow c,
               pl_keywords = ai_keywords a, pl_thread_id = thread\<rparr>]"
  using assms
  by (simp add: log_email_processing_def build_processed_log_def email_key_def Let_def)

lemma generate_response_signed:
  "\<exists>pre. generate_response b r a body subject kb = pre @ signature"
proof -
  have f: "\<exists>pre. format_response x a = pre @ signature" for x
    by (simp add: format_response_def Let_def signature_def)
  have "''You can expect a response within 24 hours.\<newline>\<newline>If you have any urgent concerns, please don't hesitate to contact us directly.\<newline>\<newline>Best regards,\<newline>SuperTickets.AI Support Team''
     = ''You can expect a response within 24 hours.\<newline>\<newline>If you have any urgent concerns, please don't hesitate to contact us directly.'' @ signature"
    by (simp add: signature_def)
  then have g: "\<exists>pre. fallback_response r a = pre @ signature"
    unfolding fallback_response_def
    by (metis append.assoc)
  from f g show ?thesis
    by (auto simp: generate_response_def split: option.splits sum.splits)
qed

lemma sample_email_keys:
  "sample_email ''id'' = Some ''msg-1''"
  "sample_email ''thread_id'' = Some ''thr-1''"
  "sample_email ''subject'' = Some ''System outage''"
  "sample_email ''sender'' = Some ''Ann <ann@example.com>''"
  "sample_email ''body'' = Some ''URGENT: production is down''"
  by (simp_all add: sample_email_def)

lemma parse_reply_consistent:
  "parse_ai_analysis loads_consistent fos reply_consistent =
     \<lparr>ai_category = JStr ''technical'', ai_priority = JStr ''high'',
      ai_sentiment = JStr ''negative'', ai_intent = JStr ''support_request'',
      ai_confidence = 17 / 20, ai_keywords = JArr [], ai_requires_human = JBool True,
      ai_suggested_response = None, ai_ticket_needed = JBool True,
      ai_reasoning = JStr ''AI analysis completed''\<rparr>"
proof -
  have js: "slice reply_consistent (str_find reply_consistent CHR ''{'')
      (str_rfind reply_consistent CHR ''}'' + 1) = object_consistent"
    using json_str_of_reply_consistent by (simp add: json_str_of_def)
  show ?thesis
    unfolding parse_ai_analysis_def parse_ai_analysis_try_def Let_def js
    using rfind_reply_consistent
    by (simp add: find_reply_consistent loads_consistent_def dict_get_def)
qed

lemma analyze_auto:
  "bedrock_analyze_email (Some invoke_auto) loads_consistent fos body subject sender =
     \<lparr>ai_category = JStr ''technical'', ai_priority = JStr ''high'',
      ai_sentiment = JStr ''negative'', ai_intent = JStr ''support_request'',
      ai_confidence = 17 / 20, ai_keywords = JArr [], ai_requires_human = JBool True,
      ai_suggested_response = None, ai_ticket_needed = JBool True,
      ai_reasoning = JStr ''AI analysis completed''\<rparr>"
  using parse_reply_consistent [of fos]
  by (simp add: bedrock_analyze_email_def call_bedrock_ai_def invoke_auto_def
      create_analysis_prompt_def)

lemma kb_auto: "search_knowledge_base_ai (Some invoke_auto) q \<noteq> []"
  by (simp add: search_knowledge_base_ai_def call_bedrock_ai_def invoke_auto_def)

lemma kb_none: "search_knowledge_base_ai None q = []"
  by (simp add: search_knowledge_base_ai_def)

lemma generate_auto:
  "truthy (ai_ticket_needed a) \<Longrightarrow>
   generate_response (Some invoke_auto) r a body subject kb =
     ''Hello Ann,\<newline>\<newline>We are looking into the outage.\<newline>\<newline>A support ticket has been created for your request. You'll receive updates as we work on your issue.\<newline>\<newline>Best regards,\<newline>SuperTickets.AI Support Team''"
  by (simp add: generate_response_def call_bedrock_ai_def create_response_prompt_def
      invoke_auto_def format_response_def strip_def is_space_def)

lemma extract_ann: "extract_email_address ''Ann <ann@example.com>'' = ''ann@example.com''"
  by (simp add: extract_email_address_def match_group_def)

lemma collab_fields [simp]:
  "bedrock collab_ok = Some invoke_auto" "json_loads_c collab_ok = loads_consistent"
  "float_of_str_c collab_ok = no_float_of_str" "py_repr_c collab_ok = sample_repr"
  "uuid4 collab_ok = sample_uuid4" "insert_ticket collab_ok = accept_ticket"
  "insert_interaction collab_ok = accept_interaction" "send_email collab_ok = sample_send"
  "modify_unread collab_ok = accept_modify" "utcnow collab_ok = ''2024-05-01T10:00:00''"
  by (simp_all add: collab_ok_def)

lemma outbox_accepts_fails:
  assumes "\<And>m. \<exists>e. send_email c m = Inl e"
  shows "outbox_accepts c email resp tid = []"
proof (cases "build_email_data email resp tid")
  case (Inl e)
  then show ?thesis by (simp add: outbox_accepts_def)
next
  case (Inr m)
  from assms [of m] obtain e where "send_email c m = Inl e" ..
  with Inr show ?thesis by (simp add: outbox_accepts_def)
qed

lemma mark_email_as_read_sent_mail [simp]:
  "sent_mail (mark_email_as_read c w i) = sent_mail w"
  by (simp add: mark_email_as_read_def split: option.splits)

lemma process_new_emails_single:
  assumes "well_formed email" "email ''id'' \<notin> processed_emails w"
  shows "process_new_emails c w [email] =
     mark_email_as_read c
       ((snd (process_single_email c w email))
          \<lparr>processed_emails := insert (email ''id'') (processed_emails w)\<rparr>) (email ''id'')"
proof -
  from assms(1) have "fst (process_single_email c w email) = None"
    by (simp add: process_single_email_returns)
  then obtain w1 where p: "process_single_email c w email = (None, w1)"
    by (cases "process_single_email c w email") auto
  have "processed_emails w1 = processed_emails w"
    using process_single_email_processed [of c w email] p by simp
  with p assms(2) show ?thesis by (simp add: Let_def)
qed

lemma process_new_emails_skip:
  "email ''id'' \<in> processed_emails w \<Longrightarrow>
   process_new_emails c w (email # emails) = process_new_emails c w emails"
  by simp

text \<open>
  C1 (amended): a failing reply send is caught and logged inside
  \<open>_send_automated_response\<close>; it does not stop \<open>_process_single_email\<close> returning.
  For every message that carries the keys the first statements read and is not yet in
  \<open>processed_emails\<close>, when every send raises: its id is added to \<open>processed_emails\<close> in this
  cycle, no message reaches the outbox, and a further cycle over the same message changes
  nothing, so it is not retried. \<open>_process_single_email\<close> itself never changes
  \<open>processed_emails\<close> (the id is added after it has returned), and over a whole batch the ids
  added are exactly those of the messages on which it does not raise.
\<close>

theorem C1_send_failure_still_marked:
  assumes fails: "\<And>m. \<exists>e. send_email c m = Inl e"
    and wf: "well_formed email"
    and new: "email ''id'' \<notin> processed_emails w"
  shows "email ''id'' \<in> processed_emails (process_new_emails c w [email])
       \<and> sent_mail (process_new_emails c w [email]) = sent_mail w
       \<and> process_new_emails c (process_new_emails c w [email]) [email]
           = process_new_emails c w [email]
       \<and> processed_emails (snd (process_single_email c w email)) = processed_emails w
       \<and> processed_emails (process_new_emails c w emails)
           = processed_emails w \<union> set (map (\<lambda>email. email ''id'') (filter well_formed emails))"
proof -
  have a: "email ''id'' \<in> processed_emails (process_new_emails c w [email])"
    unfolding process_new_emails_processed using wf by simp
  from wf obtain subject sender body where
    k: "email ''subject'' = Some subject" "email ''sender'' = Some sender"
      "email ''body'' = Some body"
    by (auto simp: well_formed_def)
  have b: "sent_mail (process_new_emails c w [email]) = sent_mail w"
    unfolding process_new_emails_single [OF wf new]
    by (simp add: process_single_email_steps [OF k] process_steps_sent_mail
        outbox_accepts_fails [OF fails])
  have d: "process_new_emails c (process_new_emails c w [email]) [email]
           = process_new_emails c w [email]"
    using process_new_emails_skip
      [where email = email and w = "process_new_emails c w [email]" and c = c
         and emails = "[]", OF a]
    by (simp only: process_new_emails.simps(1))
  have e: "processed_emails (snd (process_single_email c w email)) = processed_emails w"
    by (rule process_single_email_processed)
  have f: "processed_emails (process_new_emails c w emails)
           = processed_emails w \<union> set (map (\<lambda>email. email ''id'') (filter well_formed emails))"
    by (rule process_new_emails_processed)
  from a b d e f show ?thesis by blast
qed

lemma collab_send_fails_fields [simp]:
  "bedrock collab_send_fails = Some invoke_auto" "json_loads_c collab_send_fails = loads_consistent"
  "float_of_str_c collab_send_fails = no_float_of_str" "py_repr_c collab_send_fails = sample_repr"
  "uuid4 collab_send_fails = sample_uuid4" "insert_ticket collab_send_fails = accept_ticket"
  "insert_interaction collab_send_fails = accept_interaction"
  "send_email collab_send_fails = reject_send"
  "modify_unread collab_send_fails = accept_modify"
  "utcnow collab_send_fails = ''2024-05-01T10:00:00''"
  by (simp_all add: collab_send_fails_def collab_ok_def)

lemma steps_send_fails:
  "error_log (snd (process_single_email collab_send_fails world0 sample_email))
     = [(''Failed to send automated response'', Exception ''Gmail API error'')]"
  unfolding process_single_email_steps [OF sample_email_keys(3,4,5)] collab_send_fails_fields
    analyze_auto
  by (simp add: process_steps_def ticket_step_def reply_step_def reply_gate_def kb_auto
      create_support_ticket_def build_ticket_data_def email_key_def sample_email_keys
      accept_ticket_def send_automated_response_def build_email_data_def reject_send_def
      log_email_processing_def build_processed_log_def accept_interaction_def world0_def
      sample_uuid4_def log_error_def Let_def)


lemma well_formed_sample: "well_formed sample_email"
  by (simp add: well_formed_def sample_email_keys)

text \<open>
  C1 (as stated, refuted): with an outbox that raises on every send, the cycle over the
  sample message logs the failed send, delivers nothing, and still adds the message id to
  \<open>processed_emails\<close>.
\<close>

theorem C1_send_failure_counterexample:
  "Some ''msg-1'' \<in> processed_emails (process_new_emails collab_send_fails world0 [sample_email])
   \<and> sent_mail (process_new_emails collab_send_fails world0 [sample_email]) = []
   \<and> error_log (process_new_emails collab_send_fails world0 [sample_email])
       = [(''Failed to send automated response'', Exception ''Gmail API error'')]"
proof -
  have new: "sample_email ''id'' \<notin> processed_emails world0" by (simp add: world0_def)
  have p: "Some ''msg-1'' \<in> processed_emails (process_new_emails collab_send_fails world0 [sample_email])"
    unfolding process_new_emails_processed using well_formed_sample
    by (simp add: sample_email_keys)
  have f: "\<And>m. \<exists>e. send_email collab_send_fails m = Inl e" by (simp add: reject_send_def)
  have s: "sent_mail (process_new_emails collab_send_fails world0 [sample_email]) = []"
    unfolding process_new_emails_single [OF well_formed_sample new]
    by (simp add: process_single_email_steps [OF sample_email_keys(3,4,5)]
        process_steps_sent_mail outbox_accepts_fails [OF f] world0_def)
  have l: "error_log (process_new_emails collab_send_fails world0 [sample_email])
       = [(''Failed to send automated response'', Exception ''Gmail API error'')]"
    unfolding process_new_emails_single [OF well_formed_sample new]
    using steps_send_fails
    by (simp add: mark_email_as_read_def accept_modify_def)
  from p s l show ?thesis by simp
qed

theorem C1_send_failure_still_marked_witness:
  "Some ''msg-1'' \<in> processed_emails (process_new_emails collab_send_fails world0 [sample_email])
   \<and> sent_mail (process_new_emails collab_send_fails world0 [sample_email]) = sent_mail world0
   \<and> process_new_emails collab_send_fails
        (process_new_emails collab_send_fails world0 [sample_email]) [sample_email]
       = process_new_emails collab_send_fails world0 [sample_email]"
proof -
  have new: "sample_email ''id'' \<notin> processed_emails world0" by (simp add: world0_def)
  have f: "\<And>m. \<exists>e. send_email collab_send_fails m = Inl e" by (simp add: reject_send_def)
  from C1_send_failure_still_marked [OF f well_formed_sample new] show ?thesis
    by (simp add: sample_email_keys)
qed

section \<open>The reply gate\<close>

lemma collab_no_ai_fields [simp]:
  "bedrock collab_no_ai = None" "json_loads_c collab_no_ai = loads_consistent"
  "float_of_str_c collab_no_ai = no_float_of_str" "py_repr_c collab_no_ai = sample_repr"
  "uuid4 collab_no_ai = sample_uuid4" "insert_ticket collab_no_ai = accept_ticket"
  "insert_interaction collab_no_ai = accept_interaction" "send_email collab_no_ai = sample_send"
  "modify_unread collab_no_ai = accept_modify" "utcnow collab_no_ai = ''2024-05-01T10:00:00''"
  by (simp_all add: collab_no_ai_def collab_ok_def)

lemma process_steps_interactions_closed_gate:
  assumes "\<not> reply_gate a kb"
  shows "support_interactions (process_steps c w email subject body a kb)
     = support_interactions
         (log_email_processing c (fst (ticket_step c w email a)) email a
            (snd (ticket_step c w email a)))"
  using assms by (simp add: process_steps_def reply_step_def Let_def)

text \<open>
  C10: in \<open>_process_single_email\<close>, on a message carrying the keys the service reads and
  with an interaction log that accepts the record, a reply reaches the outbox only when the
  Analysis has requires\_human false or the knowledge-base results are non-empty. When
  requires\_human is true and the results are empty, the outbox is left as it was and the
  interaction record of the message is appended all the same.
\<close>

theorem C10_reply_gate:
  fixes c :: collab and w :: world and email :: email and body subject sender :: string
  defines "analysis \<equiv> bedrock_analyze_email (bedrock c) (json_loads_c c) (float_of_str_c c)
      body subject sender"
    and "kb_results \<equiv> search_knowledge_base_ai (bedrock c) (subject @ '' '' @ body)"
  assumes keys: "email ''subject'' = Some subject" "email ''sender'' = Some sender"
      "email ''body'' = Some body"
    and ids: "email ''id'' = Some eid" "email ''thread_id'' = Some thread"
    and log_ok: "\<And>row. insert_interaction c (EmailProcessed row) = None"
  shows "(sent_mail (snd (process_single_email c w email)) \<noteq> sent_mail w
            \<longrightarrow> \<not> truthy (ai_requires_human analysis) \<or> kb_results \<noteq> [])
       \<and> (truthy (ai_requires_human analysis) \<and> kb_results = []
            \<longrightarrow> sent_mail (snd (process_single_email c w email)) = sent_mail w
              \<and> (\<exists>row. support_interactions (snd (process_single_email c w email))
                         = support_interactions w @ [EmailProcessed row]
                       \<and> pl_email_id row = eid
                       \<and> pl_requires_human row = ai_requires_human analysis))"
proof -
  have steps: "snd (process_single_email c w email)
      = process_steps c w email subject body analysis kb_results"
    unfolding analysis_def kb_results_def by (simp add: process_single_email_steps [OF keys])
  have sent: "sent_mail (snd (process_single_email c w email)) \<noteq> sent_mail w
      \<longrightarrow> \<not> truthy (ai_requires_human analysis) \<or> kb_results \<noteq> []"
    unfolding steps by (auto simp: process_steps_sent_mail reply_gate_def)
  have closed: "sent_mail (snd (process_single_email c w email)) = sent_mail w
       \<and> (\<exists>row. support_interactions (snd (process_single_email c w email))
                  = support_interactions w @ [EmailProcessed row]
                \<and> pl_email_id row = eid
                \<and> pl_requires_human row = ai_requires_human analysis)"
    if g: "truthy (ai_requires_human analysis) \<and> kb_results = []"
  proof -
    from g have ng: "\<not> reply_gate analysis kb_results" by (simp add: reply_gate_def)
    have s: "sent_mail (snd (process_single_email c w email)) = sent_mail w"
      unfolding steps using ng by (simp add: process_steps_sent_mail)
    have i: "support_interactions (snd (process_single_email c w email))
        = support_interactions w @
          [EmailProcessed
              \<lparr>pl_id = uuid4 c (uuid_calls (fst (ticket_step c w email analysis))),
               pl_email_id = eid,
               pl_sender_email = extract_email_address sender, pl_subject = subject,
               pl_category = ai_category analysis, pl_priority = ai_priority analysis,
               pl_sentiment = ai_sentiment analysis, pl_confidence = ai_confidence analysis,
               pl_ticket_created = (snd (ticket_step c w email analysis) \<noteq> None),
               pl_ticket_id = snd (ticket_step c w email analysis),
               pl_requires_human = ai_requires_human analysis, pl_created_at = utcnow c,
               pl_keywords = ai_keywords analysis, pl_thread_id = thread\<rparr>]"
      unfolding steps process_steps_interactions_closed_gate [OF ng]
      by (simp add: log_email_processing_appends [OF ids(1) keys(2) keys(1) ids(2) log_ok])
    from s i show ?thesis by simp
  qed
  from sent closed show ?thesis by blast
qed

theorem C10_reply_gate_witness:
  "sent_mail (snd (process_single_email collab_ok world0 sample_email)) \<noteq> sent_mail world0
   \<and> search_knowledge_base_ai (bedrock collab_ok)
        (''System outage'' @ '' '' @ ''URGENT: production is down'') \<noteq> []
   \<and> truthy (ai_requires_human (bedrock_analyze_email (bedrock collab_no_ai)
        (json_loads_c collab_no_ai) (float_of_str_c collab_no_ai)
        ''URGENT: production is down'' ''System outage'' ''Ann <ann@example.com>''))
   \<and> search_knowledge_base_ai (bedrock collab_no_ai)
        (''System outage'' @ '' '' @ ''URGENT: production is down'') = []
   \<and> sent_mail (snd (process_single_email collab_no_ai world0 sample_email)) = []
   \<and> length (support_interactions (snd (process_single_email collab_no_ai world0 sample_email)))
       = 1"
proof -
  have ok: "\<And>row. insert_interaction collab_ok (EmailProcessed row) = None"
    by (simp add: accept_interaction_def)
  have ok': "\<And>row. insert_interaction collab_no_ai (EmailProcessed row) = None"
    by (simp add: accept_interaction_def)
  have sent: "sent_mail (snd (process_single_email collab_ok world0 sample_email))
      \<noteq> sent_mail world0"
    unfolding process_single_email_steps [OF sample_email_keys(3,4,5)]
    by (simp add: process_steps_sent_mail reply_gate_def kb_auto outbox_accepts_def
        build_email_data_def email_key_def sample_email_keys sample_send_def
        split: option.splits)
  have human: "truthy (ai_requires_human (bedrock_analyze_email (bedrock collab_no_ai)
        (json_loads_c collab_no_ai) (float_of_str_c collab_no_ai)
        ''URGENT: production is down'' ''System outage'' ''Ann <ann@example.com>''))"
    by (simp add: bedrock_analyze_email_def fallback_analysis_def)
  have nokb: "search_knowledge_base_ai (bedrock collab_no_ai)
        (''System outage'' @ '' '' @ ''URGENT: production is down'') = []"
    by (simp add: kb_none)
  from C10_reply_gate [OF sample_email_keys(3,4,5) sample_email_keys(1,2) ok, of world0] sent
  have g1: "search_knowledge_base_ai (bedrock collab_ok)
        (''System outage'' @ '' '' @ ''URGENT: production is down'') \<noteq> []"
    by (simp add: analyze_auto)
  from C10_reply_gate [OF sample_email_keys(3,4,5) sample_email_keys(1,2) ok', of world0] human nokb
  have g2: "sent_mail (snd (process_single_email collab_no_ai world0 sample_email)) = sent_mail world0
       \<and> (\<exists>row. support_interactions (snd (process_single_email collab_no_ai world0 sample_email))
                  = support_interactions world0 @ [EmailProcessed row]
                \<and> pl_email_id row = ''msg-1''
                \<and> pl_requires_human row = ai_requires_human (bedrock_analyze_email
                    (bedrock collab_no_ai) (json_loads_c collab_no_ai) (float_of_str_c collab_no_ai)
                    ''URGENT: production is down'' ''System outage'' ''Ann <ann@example.com>''))"
    by blast
  then have g3: "sent_mail (snd (process_single_email collab_no_ai world0 sample_email)) = []
     \<and> length (support_interactions (snd (process_single_email collab_no_ai world0 sample_email))) = 1"
    by (auto simp: world0_def)
  from sent g1 human nokb g3 show ?thesis by blast
qed

section \<open>Ticket creation failure and the ticket reference\<close>

lemma collab_ticket_fails_fields [simp]:
  "bedrock collab_ticket_fails = Some invoke_auto"
  "json_loads_c collab_ticket_fails = loads_consistent"
  "float_of_str_c collab_ticket_fails = no_float_of_str"
  "py_repr_c collab_ticket_fails = sample_repr"
  "uuid4 collab_ticket_fails = sample_uuid4" "insert_ticket collab_ticket_fails = reject_ticket"
  "insert_interaction collab_ticket_fails = accept_interaction"
  "send_email collab_ticket_fails = sample_send"
  "modify_unread collab_ticket_fails = accept_modify"
  "utcnow collab_ticket_fails = ''2024-05-01T10:00:00''"
  by (simp_all add: collab_ticket_fails_def collab_ok_def)

lemma ticket_step_raises:
  assumes "truthy (ai_ticket_needed a)" and "\<And>t. insert_ticket c t \<noteq> None"
  shows "snd (ticket_step c w email a) = None
    \<and> support_tickets (fst (ticket_step c w email a)) = support_tickets w
    \<and> (\<exists>e. error_log (fst (ticket_step c w email a))
           = error_log w @ [(''Failed to create support ticket'', e)])"
  using assms(1) create_support_ticket_raises [OF assms(2), of w email a]
  by (simp add: ticket_step_def)

lemma process_steps_error_log:
  "set (error_log (fst (ticket_step c w email a)))
     \<subseteq> set (error_log (process_steps c w email subject body a kb))"
  unfolding process_steps_def Let_def
  using reply_step_error_log log_email_processing_error_log by (meson subset_trans)

lemma process_steps_tickets:
  "support_tickets (process_steps c w email subject body a kb)
     = support_tickets (fst (ticket_step c w email a))"
  by (simp add: process_steps_def Let_def)

lemma process_steps_last_interaction:
  assumes "email ''id'' = Some eid" "email ''sender'' = Some sender"
    "email ''subject'' = Some subject'" "email ''thread_id'' = Some thread"
    and "\<And>row. insert_interaction c (EmailProcessed row) = None"
  shows "\<exists>pre row. support_interactions (process_steps c w email subject body a kb)
            = pre @ [EmailProcessed row]
          \<and> pl_email_id row = eid
          \<and> pl_ticket_created row = (snd (ticket_step c w email a) \<noteq> None)
          \<and> pl_ticket_id row = snd (ticket_step c w email a)"
  unfolding process_steps_def Let_def
  by (simp add: log_email_processing_appends [OF assms])

text \<open>
  What a raising ticket insert leaves behind, whatever the other collaborators do: no
  ticket id, no ticket row, a logged failure, no exception raised outward, an interaction
  record with ticket\_created false when the log accepts it, and a reply step that runs on
  the reply condition of \<open>_process_single_email\<close> with no ticket reference.
\<close>

lemma process_single_email_ticket_raises:
  fixes c :: collab and w :: world and email :: email and body subject sender :: string
  defines "analysis \<equiv> bedrock_analyze_email (bedrock c) (json_loads_c c) (float_of_str_c c)
      body subject sender"
    and "kb_results \<equiv> search_knowledge_base_ai (bedrock c) (subject @ '' '' @ body)"
  assumes keys: "email ''subject'' = Some subject" "email ''sender'' = Some sender"
      "email ''body'' = Some body"
    and ids: "email ''id'' = Some eid" "email ''thread_id'' = Some thread"
    and needed: "truthy (ai_ticket_needed analysis)"
    and raises: "\<And>t. insert_ticket c t \<noteq> None"
  shows "fst (process_single_email c w email) = None
       \<and> snd (create_support_ticket c w email analysis) = None
       \<and> support_tickets (snd (process_single_email c w email)) = support_tickets w
       \<and> (\<exists>e. (''Failed to create support ticket'', e)
               \<in> set (error_log (snd (process_single_email c w email))))
       \<and> ((\<forall>row. insert_interaction c (EmailProcessed row) = None) \<longrightarrow>
            (\<exists>pre row. support_interactions (snd (process_single_email c w email))
                          = pre @ [EmailProcessed row]
                        \<and> pl_email_id row = eid \<and> \<not> pl_ticket_created row
                        \<and> pl_ticket_id row = None))
       \<and> (\<not> reply_gate analysis kb_results \<longrightarrow>
            sent_mail (snd (process_single_email c w email)) = sent_mail w)
       \<and> (reply_gate analysis kb_results \<longrightarrow>
            (\<forall>sent. send_email c
                \<lparr>ed_to = extract_email_address sender, ed_subject = ''Re: '' @ subject,
                 ed_body = generate_response (bedrock c) (py_repr_c c) analysis body subject
                   kb_results,
                 ed_thread_id = thread\<rparr> = Inr sent \<longrightarrow>
              sent_mail (snd (process_single_email c w email)) = sent_mail w @
                [\<lparr>ed_to = extract_email_address sender, ed_subject = ''Re: '' @ subject,
                  ed_body = generate_response (bedrock c) (py_repr_c c) analysis body subject
                    kb_results,
                  ed_thread_id = thread\<rparr>]))"
proof -
  have steps: "process_single_email c w email
      = (None, process_steps c w email subject body analysis kb_results)"
    unfolding analysis_def kb_results_def by (rule process_single_email_steps [OF keys])
  note ts = ticket_step_raises [OF needed raises, of w email]
  have a: "fst (process_single_email c w email) = None" by (simp add: steps)
  have b: "snd (create_support_ticket c w email analysis) = None"
    using create_support_ticket_raises [OF raises, of w email analysis] by simp
  have t: "support_tickets (snd (process_single_email c w email)) = support_tickets w"
    using ts by (simp add: steps process_steps_tickets)
  from ts obtain e where
    "error_log (fst (ticket_step c w email analysis))
       = error_log w @ [(''Failed to create support ticket'', e)]"
    by blast
  then have "(''Failed to create support ticket'', e)
      \<in> set (error_log (fst (ticket_step c w email analysis)))"
    by simp
  with process_steps_error_log [of c w email analysis subject body kb_results]
  have l: "\<exists>e. (''Failed to create support ticket'', e)
      \<in> set (error_log (snd (process_single_email c w email)))"
    unfolding steps by auto
  have i: "\<exists>pre row. support_interactions (snd (process_single_email c w email))
                          = pre @ [EmailProcessed row]
                        \<and> pl_email_id row = eid \<and> \<not> pl_ticket_created row
                        \<and> pl_ticket_id row = None"
    if ok: "\<forall>row. insert_interaction c (EmailProcessed row) = None"
  proof -
    from ok have ok': "\<And>row. insert_interaction c (EmailProcessed row) = None" by simp
    from process_steps_last_interaction [OF ids(1) keys(2) keys(1) ids(2) ok',
        of w subject body analysis kb_results] ts
    show ?thesis by (simp add: steps)
  qed
  have n: "sent_mail (snd (process_single_email c w email)) = sent_mail w"
    if "\<not> reply_gate analysis kb_results"
    using that by (simp add: steps process_steps_sent_mail)
  have s: "sent_mail (snd (process_single_email c w email)) = sent_mail w @
                [\<lparr>ed_to = extract_email_address sender, ed_subject = ''Re: '' @ subject,
                  ed_body = generate_response (bedrock c) (py_repr_c c) analysis body subject
                    kb_results,
                  ed_thread_id = thread\<rparr>]"
    if "reply_gate analysis kb_results"
      and "send_email c
                \<lparr>ed_to = extract_email_address sender, ed_subject = ''Re: '' @ subject,
                 ed_body = generate_response (bedrock c) (py_repr_c c) analysis body subject
                   kb_results,
                 ed_thread_id = thread\<rparr> = Inr sent" for sent
    using that ts
    by (simp add: steps process_steps_sent_mail outbox_accepts_def
        build_email_data_keys(1) [OF keys(1) keys(2) ids(2)])
  from a b t l i n s show ?thesis by blast
qed

lemma format_response_notice:
  assumes "truthy (ai_ticket_needed a)"
  shows "\<exists>pre mid. format_response x a = pre @ ''A support ticket has been created'' @ mid @ signature"
proof -
  have "format_response x a =
      (strip x @ ''\<newline>\<newline>'') @ ''A support ticket has been created''
        @ '' for your request. You'll receive updates as we work on your issue.'' @ signature"
    using assms by (simp add: format_response_def signature_def)
  then show ?thesis by blast
qed

lemma fallback_response_notice:
  assumes "truthy (ai_ticket_needed a)"
  shows "\<exists>pre mid. fallback_response r a = pre @ ''A support ticket has been created'' @ mid @ signature"
proof -
  have "fallback_response r a =
      (''Hello,\<newline>\<newline>Thank you for contacting SuperTickets.AI support. We've received your ''
        @ py_str r (ai_category a) @ '' inquiry and our team will review it shortly.\<newline>\<newline>'')
      @ ''A support ticket has been created''
      @ '' and You can expect a response within 24 hours.\<newline>\<newline>If you have any urgent concerns, please don't hesitate to contact us directly.''
      @ signature"
    using assms by (simp add: fallback_response_def signature_def)
  then show ?thesis by blast
qed

lemma generate_response_notice:
  assumes "truthy (ai_ticket_needed a)"
  shows "\<exists>pre mid. generate_response b r a body subject kb
           = pre @ ''A support ticket has been created'' @ mid @ signature"
  using format_response_notice [OF assms] fallback_response_notice [OF assms]
  by (auto simp: generate_response_def split: option.splits sum.splits)

lemma ticket_step_created:
  "snd (ticket_step c w email a) = Some tid \<Longrightarrow> truthy (ai_ticket_needed a)"
  by (auto simp: ticket_step_def split: if_splits)

lemma search_knowledge_base_ai_answers:
  assumes "bedrock c = Some invoke_model" and "invoke_model (SearchPrompt q) = Inr terms"
  shows "search_knowledge_base_ai (bedrock c) q \<noteq> []"
  using assms by (simp add: search_knowledge_base_ai_def call_bedrock_ai_def)

text \<open>
  C8: when the ticket table raises on the insert of a needed ticket and the other
  collaborators answer (the inference client answers the knowledge-base search, the outbox
  accepts the reply, the interaction log accepts the record), \<open>_create_support_ticket\<close>
  returns \<open>None\<close>, the failure is logged, no ticket row is written and
  \<open>_process_single_email\<close> raises nothing; the interaction record is appended with
  ticket\_created false; and the reply is still sent: the generated response, with no
  ticket reference, is the one message added to the outbox.
\<close>

theorem C8_ticket_failure_contained:
  fixes c :: collab and w :: world and email :: email and body subject sender :: string
  defines "analysis \<equiv> bedrock_analyze_email (bedrock c) (json_loads_c c) (float_of_str_c c)
      body subject sender"
    and "kb_results \<equiv> search_knowledge_base_ai (bedrock c) (subject @ '' '' @ body)"
  assumes keys: "email ''subject'' = Some subject" "email ''sender'' = Some sender"
      "email ''body'' = Some body"
    and ids: "email ''id'' = Some eid" "email ''thread_id'' = Some thread"
    and needed: "truthy (ai_ticket_needed analysis)"
    and raises: "\<And>t. insert_ticket c t \<noteq> None"
    and search_ok: "bedrock c = Some invoke_model"
      "invoke_model (SearchPrompt (subject @ '' '' @ body)) = Inr terms"
    and log_ok: "\<And>row. insert_interaction c (EmailProcessed row) = None"
    and send_ok: "send_email c
        \<lparr>ed_to = extract_email_address sender, ed_subject = ''Re: '' @ subject,
         ed_body = generate_response (bedrock c) (py_repr_c c) analysis body subject kb_results,
         ed_thread_id = thread\<rparr> = Inr receipt"
  shows "fst (process_single_email c w email) = None
       \<and> snd (create_support_ticket c w email analysis) = None
       \<and> support_tickets (snd (process_single_email c w email)) = support_tickets w
       \<and> (\<exists>e. (''Failed to create support ticket'', e)
               \<in> set (error_log (snd (process_single_email c w email))))
       \<and> (\<exists>pre row. support_interactions (snd (process_single_email c w email))
                       = pre @ [EmailProcessed row]
                     \<and> pl_email_id row = eid \<and> \<not> pl_ticket_created row
                     \<and> pl_ticket_id row = None)
       \<and> sent_mail (snd (process_single_email c w email)) = sent_mail w @
            [\<lparr>ed_to = extract_email_address sender, ed_subject = ''Re: '' @ subject,
              ed_body = generate_response (bedrock c) (py_repr_c c) analysis body subject
                kb_results,
              ed_thread_id = thread\<rparr>]"
proof -
  note n = needed [unfolded analysis_def]
  have "search_knowledge_base_ai (bedrock c) (subject @ '' '' @ body) \<noteq> []"
    by (rule search_knowledge_base_ai_answers [OF search_ok])
  then have gate: "reply_gate
      (bedrock_analyze_email (bedrock c) (json_loads_c c) (float_of_str_c c) body subject sender)
      (search_knowledge_base_ai (bedrock c) (subject @ '' '' @ body))"
    by (simp add: reply_gate_def)
  from log_ok have l: "\<forall>row. insert_interaction c (EmailProcessed row) = None" by simp
  from process_single_email_ticket_raises [OF keys ids n raises, of w] gate l
    send_ok [unfolded analysis_def kb_results_def]
  show ?thesis unfolding analysis_def kb_results_def by blast
qed

theorem C8_ticket_failure_contained_witness:
  "fst (process_single_email collab_ticket_fails world0 sample_email) = None
   \<and> support_tickets (snd (process_single_email collab_ticket_fails world0 sample_email)) = []
   \<and> map ed_body (sent_mail (snd (process_single_email collab_ticket_fails world0 sample_email)))
       = [''Hello Ann,\<newline>\<newline>We are looking into the outage.\<newline>\<newline>A support ticket has been created for your request. You'll receive updates as we work on your issue.\<newline>\<newline>Best regards,\<newline>SuperTickets.AI Support Team'']"
proof -
  let ?a = "bedrock_analyze_email (bedrock collab_ticket_fails) (json_loads_c collab_ticket_fails)
      (float_of_str_c collab_ticket_fails) ''URGENT: production is down'' ''System outage''
      ''Ann <ann@example.com>''"
  let ?kb = "search_knowledge_base_ai (bedrock collab_ticket_fails)
      (''System outage'' @ '' '' @ ''URGENT: production is down'')"
  have needed: "truthy (ai_ticket_needed ?a)" by (simp add: analyze_auto)
  have raises: "\<And>t. insert_ticket collab_ticket_fails t \<noteq> None" by (simp add: reject_ticket_def)
  have b: "bedrock collab_ticket_fails = Some invoke_auto" by simp
  have q: "invoke_auto (SearchPrompt (''System outage'' @ '' '' @ ''URGENT: production is down''))
      = Inr ''outage''"
    by (simp add: invoke_auto_def)
  have ok: "\<And>row. insert_interaction collab_ticket_fails (EmailProcessed row) = None"
    by (simp add: accept_interaction_def)
  have send: "send_email collab_ticket_fails
      \<lparr>ed_to = extract_email_address ''Ann <ann@example.com>'',
       ed_subject = ''Re: '' @ ''System outage'',
       ed_body = generate_response (bedrock collab_ticket_fails) (py_repr_c collab_ticket_fails)
         ?a ''URGENT: production is down'' ''System outage'' ?kb,
       ed_thread_id = ''thr-1''\<rparr>
     = Inr \<lparr>sr_message_id = ''sent-1'', sr_thread_id = ''thr-1'', sr_status = ''sent''\<rparr>"
    by (simp add: sample_send_def)
  from C8_ticket_failure_contained [OF sample_email_keys(3,4,5) sample_email_keys(1,2) needed raises b q ok send,
      of world0]
  have "fst (process_single_email collab_ticket_fails world0 sample_email) = None
     \<and> support_tickets (snd (process_single_email collab_ticket_fails world0 sample_email))
         = support_tickets world0
     \<and> sent_mail (snd (process_single_email collab_ticket_fails world0 sample_email))
         = sent_mail world0 @
           [\<lparr>ed_to = extract_email_address ''Ann <ann@example.com>'',
             ed_subject = ''Re: '' @ ''System outage'',
             ed_body = generate_response (bedrock collab_ticket_fails)
               (py_repr_c collab_ticket_fails) ?a ''URGENT: production is down''
               ''System outage'' ?kb,
             ed_thread_id = ''thr-1''\<rparr>]"
    by blast
  then show ?thesis
    using generate_auto [OF needed [unfolded collab_ticket_fails_fields]]
    by (simp add: world0_def)
qed


lemma ticket_step_ok:
  "snd (ticket_step collab_ok world0 sample_email
      (bedrock_analyze_email (Some invoke_auto) loads_consistent no_float_of_str
         ''URGENT: production is down'' ''System outage'' ''Ann <ann@example.com>''))
     = Some ''3f2a9c1e-5b7d-4e21-9a40-0c1d2e3f4a5b''"
  unfolding analyze_auto
  by (simp add: ticket_step_def create_support_ticket_def build_ticket_data_def email_key_def
      sample_email_keys accept_ticket_def world0_def sample_uuid4_def Let_def)

lemma sample_sent_body:
  "map ed_body (sent_mail (snd (process_single_email collab_ok world0 sample_email)))
     = [sample_reply_body]"
proof -
  have needed: "truthy (ai_ticket_needed (bedrock_analyze_email (Some invoke_auto)
      loads_consistent no_float_of_str ''URGENT: production is down'' ''System outage''
      ''Ann <ann@example.com>''))"
    by (simp add: analyze_auto)
  show ?thesis
    unfolding process_single_email_steps [OF sample_email_keys(3,4,5)] collab_fields
    using ticket_step_ok generate_auto [OF needed]
    by (simp add: process_steps_sent_mail reply_gate_def kb_auto outbox_accepts_def
        build_email_data_def email_key_def sample_email_keys sample_send_def world0_def
        sample_reply_body_def)
qed



end
